theory Spec2Isabelle
  imports Main "HOL-Library.AList" "HOL-Library.Sublist"
begin

section \<open>Package differ: \<open>defaultPkgDiffer.Diff\<close>\<close>

text \<open>
  The differ stages the packages, strips their metadata and hands them to an external
  diff tool. Everything the operating system decides is a parameter of the model:
  \<^item> \<open>rmAll dir name\<close> is the result of \<open>os.RemoveAll(filepath.Join(dir, name))\<close>;
  \<^item> \<open>run tool args\<close> is the result of \<open>cmd.Run()\<close> for \<open>exec.Command(tool, args...)\<close>:
    \<open>None\<close> for a nil error, an \<open>ExitError\<close> carrying the exit code of a tool that ran and
    exited unsuccessfully, or any other error (the tool could not be started).
\<close>

datatype diffError =
    ExitError int
  | OtherError string

datatype diffEvent =
    DebugLine string
  | ExitCodeDiffWarning string string

record defaultPkgDiffer =
  DiffType :: string
  DiffTool :: string
  DiffToolOpts :: string
  Debug :: bool

text \<open>\<open>strings.Split(s, sep)\<close> for a one-byte separator, and \<open>strings.Join\<close>.\<close>

fun Split :: "string \<Rightarrow> char \<Rightarrow> string list" where
  "Split [] c = [[]]"
| "Split (x # xs) c =
     (if x = c then [] # Split xs c
      else (case Split xs c of [] \<Rightarrow> [[x]] | w # ws \<Rightarrow> (x # w) # ws))"

fun Join :: "string list \<Rightarrow> string \<Rightarrow> string" where
  "Join [] sep = []"
| "Join [x] sep = x"
| "Join (x # y # ys) sep = x @ sep @ Join (y # ys) sep"

definition KptFileName :: string where
  "KptFileName = ''Kptfile''"

fun removePaths :: "(string \<Rightarrow> string \<Rightarrow> diffError option) \<Rightarrow> string \<Rightarrow> string list \<Rightarrow> diffError option" where
  "removePaths rmAll dir [] = None"
| "removePaths rmAll dir (path # paths) =
     (case rmAll dir path of
        Some err \<Rightarrow> Some err
      | None \<Rightarrow> removePaths rmAll dir paths)"

definition prepareForDiff :: "(string \<Rightarrow> string \<Rightarrow> diffError option) \<Rightarrow> string \<Rightarrow> diffError option" where
  "prepareForDiff rmAll dir = removePaths rmAll dir [''.git'', KptFileName]"

fun prepareAll :: "(string \<Rightarrow> string \<Rightarrow> diffError option) \<Rightarrow> string list \<Rightarrow> diffError option" where
  "prepareAll rmAll [] = None"
| "prepareAll rmAll (pkg # pkgs) =
     (case prepareForDiff rmAll pkg of
        Some err \<Rightarrow> Some err
      | None \<Rightarrow> prepareAll rmAll pkgs)"

definition diffArgs :: "defaultPkgDiffer \<Rightarrow> string list \<Rightarrow> string list" where
  "diffArgs d pkgs =
     (if DiffToolOpts d \<noteq> [] then Split (DiffToolOpts d) CHR '' '' @ pkgs else pkgs)"

text \<open>
  \<open>Diff\<close> returns the error of the Go function together with what it printed: the debug
  line written to \<open>d.Output\<close> and the warning \<open>exitCodeDiffWarning\<close> printed with the tool
  and the diff type.
\<close>

definition Diff ::
  "(string \<Rightarrow> string \<Rightarrow> diffError option) \<Rightarrow> (string \<Rightarrow> string list \<Rightarrow> diffError option) \<Rightarrow>
   defaultPkgDiffer \<Rightarrow> string list \<Rightarrow> diffError option \<times> diffEvent list" where
  "Diff rmAll run d pkgs =
     (case prepareAll rmAll pkgs of
        Some err \<Rightarrow> (Some err, [])
      | None \<Rightarrow>
          (let args = diffArgs d pkgs;
               dbg = (if Debug d then [DebugLine (Join (DiffTool d # args) '' '' @ [CHR 0x0A])] else [])
           in case run (DiffTool d) args of
                None \<Rightarrow> (None, dbg)
              | Some (ExitError code) \<Rightarrow>
                  (if code = 1 then (None, dbg)
                   else (Some (ExitError code), dbg @ [ExitCodeDiffWarning (DiffTool d) (DiffType d)]))
              | Some (OtherError e) \<Rightarrow> (Some (OtherError e), dbg)))"

section \<open>Kptfile error resolver: \<open>pkgErrorResolver.Resolve\<close>\<close>

text \<open>
  Go errors form a chain through \<open>Unwrap\<close>. The chain is a datatype: the error types that
  the resolver looks for, \<open>os.ErrNotExist\<close>, a wrapper of any other type (\<open>Wrap\<close>) and a
  leaf of any other type (\<open>Opaque\<close>). \<open>RemoteKptfileError\<close> carries \<open>RepoSpec.RepoRef()\<close>,
  \<open>ValidateError\<close> carries the text of its \<open>Error()\<close>.
\<close>

record GVK =
  Group :: string
  Version :: string
  Kind :: string

definition GVK_String :: "GVK \<Rightarrow> string" where
  "GVK_String gvk = Group gvk @ ''/'' @ Version gvk @ '', Kind='' @ Kind gvk"

datatype err =
    ErrNotExist
  | Opaque string
  | Wrap string err
  | KptfileError string err
  | RemoteKptfileError string err
  | DeprecatedKptfileError string
  | UnknownKptfileResourceError GVK
  | ValidateError string

text \<open>\<open>errors.As\<close> for each target type: the first error of that type in the chain.\<close>

fun AsKptfileError :: "err \<Rightarrow> (string \<times> err) option" where
  "AsKptfileError (KptfileError path e) = Some (path, KptfileError path e)"
| "AsKptfileError (Wrap m e) = AsKptfileError e"
| "AsKptfileError (RemoteKptfileError ref e) = AsKptfileError e"
| "AsKptfileError _ = None"

fun AsRemoteKptfileError :: "err \<Rightarrow> (string \<times> err) option" where
  "AsRemoteKptfileError (RemoteKptfileError ref e) = Some (ref, RemoteKptfileError ref e)"
| "AsRemoteKptfileError (Wrap m e) = AsRemoteKptfileError e"
| "AsRemoteKptfileError (KptfileError path e) = AsRemoteKptfileError e"
| "AsRemoteKptfileError _ = None"

fun AsDeprecatedKptfileError :: "err \<Rightarrow> string option" where
  "AsDeprecatedKptfileError (DeprecatedKptfileError v) = Some v"
| "AsDeprecatedKptfileError (Wrap m e) = AsDeprecatedKptfileError e"
| "AsDeprecatedKptfileError (KptfileError path e) = AsDeprecatedKptfileError e"
| "AsDeprecatedKptfileError (RemoteKptfileError ref e) = AsDeprecatedKptfileError e"
| "AsDeprecatedKptfileError _ = None"

fun AsUnknownKptfileResourceError :: "err \<Rightarrow> GVK option" where
  "AsUnknownKptfileResourceError (UnknownKptfileResourceError gvk) = Some gvk"
| "AsUnknownKptfileResourceError (Wrap m e) = AsUnknownKptfileResourceError e"
| "AsUnknownKptfileResourceError (KptfileError path e) = AsUnknownKptfileResourceError e"
| "AsUnknownKptfileResourceError (RemoteKptfileError ref e) = AsUnknownKptfileResourceError e"
| "AsUnknownKptfileResourceError _ = None"

fun AsValidateError :: "err \<Rightarrow> string option" where
  "AsValidateError (ValidateError msg) = Some msg"
| "AsValidateError (Wrap m e) = AsValidateError e"
| "AsValidateError (KptfileError path e) = AsValidateError e"
| "AsValidateError (RemoteKptfileError ref e) = AsValidateError e"
| "AsValidateError _ = None"

text \<open>\<open>errors.Is(err, os.ErrNotExist)\<close>.\<close>

fun IsErrNotExist :: "err \<Rightarrow> bool" where
  "IsErrNotExist ErrNotExist = True"
| "IsErrNotExist (Wrap m e) = IsErrNotExist e"
| "IsErrNotExist (KptfileError path e) = IsErrNotExist e"
| "IsErrNotExist (RemoteKptfileError ref e) = IsErrNotExist e"
| "IsErrNotExist _ = False"

subsection \<open>Message templates\<close>

text \<open>
  A template is the list of its literal texts and actions; \<open>{{-\<close> has already trimmed the
  white space before the nested template of \<open>kptfileReadErrMsg\<close>. The template arguments
  are the Go map from names to values.
\<close>

datatype action =
    Lit string
  | PrintfQ string
  | PrintfQGvkString
  | TemplateNestedErrDetails

datatype tmplValue =
    StringVal string
  | ErrVal "err option"
  | GVKVal GVK

type_synonym tmplArgs = "(string \<times> tmplValue) list"

definition noKptfileMsg :: "action list" where
  "noKptfileMsg =
     [Lit [CHR 0x0A], Lit ''Error: No Kptfile found at '', PrintfQ ''path'', Lit ''.'', Lit [CHR 0x0A]]"

definition deprecatedKptfileMsg :: "action list" where
  "deprecatedKptfileMsg =
     [Lit [CHR 0x0A], Lit ''Error: Kptfile at '', PrintfQ ''path'',
      Lit '' has an old version ('', PrintfQ ''version'',
      Lit '') of the Kptfile schema. Please update the package to the latest format. See https://kpt.dev/installation/migration for more details.'',
      Lit [CHR 0x0A]]"

definition unknownKptfileResourceMsg :: "action list" where
  "unknownKptfileResourceMsg =
     [Lit [CHR 0x0A], Lit ''Error: Kptfile at '', PrintfQ ''path'',
      Lit '' has an unknown resource type ('', PrintfQGvkString, Lit '').'', Lit [CHR 0x0A]]"

definition kptfileReadErrMsg :: "action list" where
  "kptfileReadErrMsg =
     [Lit [CHR 0x0A], Lit ''Error: Kptfile at '', PrintfQ ''path'', Lit '' can't be read.'',
      TemplateNestedErrDetails, Lit [CHR 0x0A]]"

text \<open>
  Modelled from the spec: \<open>ExecuteTemplate\<close> and the template \<open>NestedErrDetails\<close> belong to
  package \<open>resolver\<close> but are not among the sources. The spec has presentation layers
  "format human-readable messages from templates keyed by error kind". The rendered
  message is kept as a list of pieces: literal text, \<open>Quoted s\<close> for what \<open>printf "%q"\<close>
  prints for the string \<open>s\<close>, \<open>NoValue\<close> for an action on a missing argument, and
  \<open>NestedDetails\<close> for what the nested template prints for the \<open>err\<close> argument.
\<close>

datatype piece =
    Text string
  | Quoted string
  | NoValue
  | NestedDetails "err option"

fun render :: "tmplArgs \<Rightarrow> action \<Rightarrow> piece" where
  "render args (Lit s) = Text s"
| "render args (PrintfQ name) =
     (case map_of args name of Some (StringVal s) \<Rightarrow> Quoted s | _ \<Rightarrow> NoValue)"
| "render args PrintfQGvkString =
     (case map_of args ''gvk'' of Some (GVKVal gvk) \<Rightarrow> Quoted (GVK_String gvk) | _ \<Rightarrow> NoValue)"
| "render args TemplateNestedErrDetails =
     (case map_of args ''err'' of Some (ErrVal e) \<Rightarrow> NestedDetails e | _ \<Rightarrow> NoValue)"

definition ExecuteTemplate :: "action list \<Rightarrow> tmplArgs \<Rightarrow> piece list" where
  "ExecuteTemplate tmpl args = map (render args) tmpl"

subsection \<open>The resolver\<close>

record ResolvedResult =
  Message :: "piece list"

definition resolveNestedErr :: "err \<Rightarrow> tmplArgs \<Rightarrow> ResolvedResult \<times> bool" where
  "resolveNestedErr e tmplArgs =
     (if IsErrNotExist e then (\<lparr>Message = ExecuteTemplate noKptfileMsg tmplArgs\<rparr>, True)
      else (case AsDeprecatedKptfileError e of
        Some version \<Rightarrow>
          (\<lparr>Message = ExecuteTemplate deprecatedKptfileMsg
              (AList.update ''version'' (StringVal version) tmplArgs)\<rparr>, True)
      | None \<Rightarrow>
          (case AsUnknownKptfileResourceError e of
             Some gvk \<Rightarrow>
               (\<lparr>Message = ExecuteTemplate unknownKptfileResourceMsg
                   (AList.update ''gvk'' (GVKVal gvk) tmplArgs)\<rparr>, True)
           | None \<Rightarrow> (\<lparr>Message = ExecuteTemplate kptfileReadErrMsg tmplArgs\<rparr>, True))))"

text \<open>
  In the branch of a remote Kptfile the source stores the variable \<open>kptfileError\<close>, which is
  nil there, under \<open>err\<close>.
\<close>

definition Resolve :: "err \<Rightarrow> ResolvedResult \<times> bool" where
  "Resolve e =
     (case AsKptfileError e of
        Some (path, kptfileError) \<Rightarrow>
          resolveNestedErr kptfileError
            [(''path'', StringVal path), (''err'', ErrVal (Some kptfileError))]
      | None \<Rightarrow>
          (case AsRemoteKptfileError e of
             Some (ref, remoteKptfileError) \<Rightarrow>
               resolveNestedErr remoteKptfileError
                 [(''path'', StringVal ref), (''err'', ErrVal None)]
           | None \<Rightarrow>
               (case AsValidateError e of
                  Some msg \<Rightarrow> (\<lparr>Message = [Text msg]\<rparr>, True)
                | None \<Rightarrow> (\<lparr>Message = []\<rparr>, False))))"

subsection \<open>Loading the manifest\<close>

text \<open>
  Modelled from the spec: the loader of the package manifest (\<open>pkg.ReadKptfile\<close>, which
  produces the errors resolved above) is not among the sources. The spec lists the manifest
  errors "missing, deprecated version, unknown kind, unparseable", each citing the path, and
  says of a manifest of an old schema version that the source rejects it "with a
  deprecation error" rather than migrating it at load time. \<open>current\<close> is the manifest type
  the tool reads, \<open>deprecated\<close> the old schema versions, and \<open>kptfileOnDisk\<close> what is found
  at the path. A successful load returns the type of the manifest read.
\<close>

datatype kptfileOnDisk =
    NoKptfile
  | Unparseable string
  | Document GVK

definition ReadKptfile :: "GVK \<Rightarrow> string list \<Rightarrow> string \<Rightarrow> kptfileOnDisk \<Rightarrow> err + GVK" where
  "ReadKptfile current deprecated path f =
     (case f of
        NoKptfile \<Rightarrow> Inl (KptfileError path ErrNotExist)
      | Unparseable m \<Rightarrow> Inl (KptfileError path (Opaque m))
      | Document gvk \<Rightarrow>
          (if gvk = current then Inr gvk
           else if Group gvk = Group current \<and> Kind gvk = Kind current \<and>
                   Version gvk \<in> set deprecated
           then Inl (KptfileError path (DeprecatedKptfileError (Version gvk)))
           else Inl (KptfileError path (UnknownKptfileResourceError gvk))))"

section \<open>The eval command: \<open>EvalFnRunner\<close>\<close>

text \<open>
  Errors of the command: a fixed message (\<open>errors.Errorf\<close>, \<open>fmt.Errorf\<close> without
  arguments), the three formatted messages with their arguments, an error handed back by a
  collaborator outside the file, and a run-time panic.
\<close>

datatype error =
    Errorf string
  | MissingFnConfigFile string
  | ResultsDirError string error
  | ExecCommandError string error
  | External string
  | Panic string

record Selector =
  Selector_APIVersion :: string
  Selector_Kind :: string
  Selector_Name :: string
  Selector_Namespace :: string

text \<open>
  Modelled from the spec: the method \<open>Selector.IsEmpty\<close> of the manifest API is not among
  the sources. "Empty fields are wildcards": the selector is empty when none of the fields
  the command can set is given.
\<close>

definition Selector_IsEmpty :: "Selector \<Rightarrow> bool" where
  "Selector_IsEmpty sel \<longleftrightarrow>
     Selector_APIVersion sel = [] \<and> Selector_Kind sel = [] \<and>
     Selector_Name sel = [] \<and> Selector_Namespace sel = []"

text \<open>\<open>kptfile.Function\<close>; a nil \<open>ConfigMap\<close> is \<open>None\<close>, a Go map is a list of distinct keys.\<close>

record Function =
  Function_Name :: string
  Function_Image :: string
  Function_Exec :: string
  Function_ConfigPath :: string
  Function_ConfigMap :: "(string \<times> string) list option"
  Function_Selectors :: "Selector list"

text \<open>\<open>runtimeutil.FunctionSpec\<close>: \<open>fn.Container.Image\<close> and \<open>fn.Exec.Path\<close>.\<close>

record FunctionSpec =
  Container_Image :: string
  Exec_Path :: string

text \<open>
  A YAML node of the function config: a scalar or a mapping with its fields in order.
\<close>

datatype RNode =
    Scalar string
  | MapNode "(string \<times> RNode) list"

datatype writer = NoWriter | OutContentWriter

datatype reader = NoReader | StdinReader

datatype StorageMount = StringToStorageMount string

datatype ImagePullPolicy = StringToImagePullPolicy string

record RunFns =
  RunFns_Function :: "FunctionSpec option"
  RunFns_ExecArgs :: "string list"
  RunFns_OriginalExec :: string
  RunFns_Output :: writer
  RunFns_Input :: reader
  RunFns_Path :: string
  RunFns_Network :: bool
  RunFns_StorageMounts :: "StorageMount list"
  RunFns_ResultsDir :: string
  RunFns_Env :: "string list"
  RunFns_AsCurrentUser :: bool
  RunFns_FnConfig :: "RNode option"
  RunFns_FnConfigPath :: string
  RunFns_IncludeMetaResources :: bool
  RunFns_ImagePullPolicy :: ImagePullPolicy
  RunFns_ContinueOnEmptyResult :: bool
  RunFns_Selector :: Selector

record EvalFnRunner =
  Dest :: string
  OutContent :: string
  FromStdin :: bool
  Image :: string
  SaveFn :: bool
  Exec :: string
  FnConfigPath :: string
  RunFns :: RunFns
  ResultsDir :: string
  ImagePullPolicy :: string
  Network :: bool
  Mounts :: "string list"
  Env :: "string list"
  AsCurrentUser :: bool
  IncludeMetaResources :: bool
  Selector :: Selector
  dataItems :: "string list"

text \<open>
  The collaborators of the command, as parameters: what the file system, the container
  tool and the helper packages answer.
  \<^item> \<open>StatIsNotExist path\<close>: \<open>os.IsNotExist\<close> of the error of \<open>os.Stat(path)\<close>;
  \<^item> \<open>shlexSplit\<close>: \<open>shlex.Split\<close>, the POSIX shell tokenizer of the library
    \<open>github.com/google/shlex\<close>;
  \<^item> \<open>RelativePath\<close>: the second result of \<open>pathutil.ResolveAbsAndRelPaths\<close>;
  \<^item> \<open>SetField name value node\<close>: \<open>node.PipeE(yaml.SetField(name, value))\<close> of the YAML
    library \<open>sigs.k8s.io/kustomize/kyaml\<close>, which updates the node in place: the node
    after the call, or the error of the call;
  \<^item> \<open>defaultImagePathPrefix\<close> and \<open>isUnqualifiedImage\<close>: the registry prefix and the test
    used by \<open>AddDefaultImagePathPrefix\<close> below.
\<close>

record world =
  CheckDirectoryNotPresent :: "string \<Rightarrow> error option"
  DockerCmdAvailable :: "error option"
  ValidateImagePullPolicyValue :: "string \<Rightarrow> error option"
  MkdirAll :: "string \<Rightarrow> error option"
  StatIsNotExist :: "string \<Rightarrow> bool"
  ResolveSymlink :: "string \<Rightarrow> error + string"
  shlexSplit :: "string \<Rightarrow> error + string list"
  ValidateFunctionImageURL :: "string \<Rightarrow> error option"
  RelativePath :: "string \<Rightarrow> string"
  SetField :: "string \<Rightarrow> RNode \<Rightarrow> RNode \<Rightarrow> error + RNode"
  defaultImagePathPrefix :: string
  isUnqualifiedImage :: "string \<Rightarrow> bool"

definition Stdout :: string where
  "Stdout = ''stdout''"

definition Unwrap :: string where
  "Unwrap = ''unwrap''"

text \<open>
  Modelled from the spec: \<open>fnruntime.AddDefaultImagePathPrefix\<close> is not among the sources.
  "Apply a default registry prefix when the image is unqualified."
\<close>

definition AddDefaultImagePathPrefix :: "world \<Rightarrow> string \<Rightarrow> string" where
  "AddDefaultImagePathPrefix w img =
     (if isUnqualifiedImage w img then defaultImagePathPrefix w @ img else img)"

text \<open>\<open>strings.SplitN(s, sep, 2)\<close> for a one-byte separator.\<close>

definition SplitN2 :: "string \<Rightarrow> char \<Rightarrow> string list" where
  "SplitN2 s c =
     (if c \<in> set s then [takeWhile (\<lambda>x. x \<noteq> c) s, tl (dropWhile (\<lambda>x. x \<noteq> c) s)] else [s])"

subsection \<open>\<open>NewFunction\<close>\<close>

text \<open>
  The loop over \<open>r.dataItems\<close> with its index \<open>i\<close>; \<open>kv[1]\<close> on a one-element slice is the
  panic of Go.
\<close>

fun newFunctionData ::
  "nat \<Rightarrow> string list \<Rightarrow> (string \<times> string) list \<Rightarrow> error + (string \<times> string) list" where
  "newFunctionData i [] data = Inr data"
| "newFunctionData i (s # ss) data =
     (case SplitN2 s CHR ''='' of
        [k, v] \<Rightarrow> newFunctionData (Suc i) ss (AList.update k v data)
      | _ \<Rightarrow>
          (if i = 0 then newFunctionData (Suc i) ss data
           else Inl (Panic ''index out of range [1] with length 1'')))"

definition NewFunction :: "world \<Rightarrow> EvalFnRunner \<Rightarrow> error + Function" where
  "NewFunction w r =
     (let newFn = \<lparr>Function_Name = [], Function_Image = [], Function_Exec = [],
                   Function_ConfigPath = [], Function_ConfigMap = None, Function_Selectors = []\<rparr>;
          newFn = (if Image r \<noteq> []
                   then newFn\<lparr>Function_Image := Image r, Function_Name := Image r\<rparr>
                   else newFn\<lparr>Function_Exec := Exec r, Function_Name := Exec r\<rparr>);
          newFn = (if \<not> Selector_IsEmpty (Selector r)
                   then newFn\<lparr>Function_Selectors := [Selector r]\<rparr> else newFn)
      in if FnConfigPath r \<noteq> []
         then Inr (newFn\<lparr>Function_ConfigPath := RelativePath w (FnConfigPath r)\<rparr>)
         else (case newFunctionData 0 (dataItems r) [] of
                 Inl e \<Rightarrow> Inl e
               | Inr data \<Rightarrow>
                   Inr (if length data \<noteq> 0 then newFn\<lparr>Function_ConfigMap := Some data\<rparr>
                        else newFn)))"

subsection \<open>\<open>getCLIFunctionConfig\<close>\<close>

text \<open>
  The document that \<open>yaml.Parse\<close> reads from the literal of the source is the mapping with
  \<open>metadata.name: function-input\<close> and an empty \<open>data\<close>, and \<open>dataField\<close> points to its
  \<open>data\<close> node. The loop carries the kind and the \<open>data\<close> node; every \<open>SetField\<close> can fail,
  and its error is returned.
\<close>

fun setDataItems ::
  "world \<Rightarrow> nat \<Rightarrow> string list \<Rightarrow> string \<Rightarrow> RNode \<Rightarrow> error + (string \<times> RNode)" where
  "setDataItems w i [] kind dataField = Inr (kind, dataField)"
| "setDataItems w i (s # ss) kind dataField =
     (case SplitN2 s CHR ''='' of
        [k, v] \<Rightarrow>
          (case SetField w k (Scalar v) dataField of
             Inl e \<Rightarrow> Inl e
           | Inr dataField' \<Rightarrow> setDataItems w (Suc i) ss kind dataField')
      | _ \<Rightarrow>
          (if i = 0 then setDataItems w (Suc i) ss s dataField
           else Inl (Errorf ''args must have keys and values separated by ='')))"

definition getCLIFunctionConfig ::
  "world \<Rightarrow> EvalFnRunner \<Rightarrow> string list \<Rightarrow> error + RNode option" where
  "getCLIFunctionConfig w r items =
     (if Image r = [] \<and> Exec r = [] then Inr None
      else
        (case setDataItems w 0 items ''ConfigMap'' (MapNode []) of
           Inl e \<Rightarrow> Inl e
         | Inr (kind, dataField) \<Rightarrow>
             (let rc = MapNode [(''metadata'', MapNode [(''name'', Scalar ''function-input'')]),
                                (''data'', dataField)]
              in case SetField w ''kind'' (Scalar kind) rc of
                   Inl e \<Rightarrow> Inl e
                 | Inr rc1 \<Rightarrow>
                     (case SetField w ''apiVersion'' (Scalar ''v1'') rc1 of
                        Inl e \<Rightarrow> Inl e
                      | Inr rc2 \<Rightarrow> Inr (Some rc2)))))"

subsection \<open>\<open>getFunctionSpec\<close>\<close>

definition getFunctionSpec :: "world \<Rightarrow> EvalFnRunner \<Rightarrow> error + FunctionSpec \<times> string list" where
  "getFunctionSpec w r =
     (let fn = \<lparr>Container_Image = [], Exec_Path = []\<rparr>
      in if Image r \<noteq> [] then
           (case ValidateFunctionImageURL w (Image r) of
              Some e \<Rightarrow> Inl e
            | None \<Rightarrow> Inr (fn\<lparr>Container_Image := Image r\<rparr>, []))
         else if Exec r \<noteq> [] then
           (if AsCurrentUser r \<or> Network r \<or> length (Mounts r) \<noteq> 0 \<or> length (Env r) \<noteq> 0
            then Inl (Errorf ''--mount, --as-current-user, --network and --env can only be used with container functions'')
            else (case shlexSplit w (Exec r) of
                    Inl e \<Rightarrow> Inl (ExecCommandError (Exec r) e)
                  | Inr [] \<Rightarrow> Inr (fn, [])
                  | Inr (path # args) \<Rightarrow> Inr (fn\<lparr>Exec_Path := path\<rparr>, args)))
         else Inr (fn, []))"

definition toStorageMounts :: "string list \<Rightarrow> StorageMount list" where
  "toStorageMounts mounts = map StringToStorageMount mounts"

definition checkFnConfigPathExistence :: "world \<Rightarrow> string \<Rightarrow> error option" where
  "checkFnConfigPathExistence w path =
     (if StatIsNotExist w path then Some (MissingFnConfigFile path) else None)"

subsection \<open>\<open>preRunE\<close>\<close>

text \<open>
  \<open>argsLenAtDash\<close> is \<open>c.ArgsLenAtDash()\<close>: the number of arguments before \<open>--\<close>, or \<open>-1\<close>
  without one. Slicing beyond the length of \<open>args\<close> is the panic of Go.
\<close>

definition splitAtDash :: "string list \<Rightarrow> int \<Rightarrow> error + string list \<times> string list" where
  "splitAtDash args argsLenAtDash =
     (if argsLenAtDash \<ge> 0 then
        (if nat argsLenAtDash \<le> length args
         then Inr (drop (nat argsLenAtDash) args, take (nat argsLenAtDash) args)
         else Inl (Panic ''slice bounds out of range''))
      else Inr ([], args))"

definition argsUsage :: string where
  "argsUsage = ''0 or 1 arguments supported, function arguments go after '--'' @ [CHR 0x27]"

text \<open>
  \<open>preRunE\<close> returns the error, or the runner as it leaves it. Its body is given in the
  three consecutive parts it consists of: the checks of the flags against the environment
  (up to the creation of the results directory), the handling of the argument list, and
  the construction of \<open>r.RunFns\<close>. Where the source reads \<open>args[0]\<close> the list has exactly one
  element, so \<open>hd\<close> is that element.
\<close>

definition preflightChecks :: "world \<Rightarrow> EvalFnRunner \<Rightarrow> error + EvalFnRunner" where
  "preflightChecks w r =
    (case (if Dest r \<noteq> [] \<and> Dest r \<noteq> Stdout \<and> Dest r \<noteq> Unwrap
           then CheckDirectoryNotPresent w (Dest r) else None) of
       Some e \<Rightarrow> Inl e
     | None \<Rightarrow>
    (if Image r = [] \<and> Exec r = [] then Inl (Errorf ''must specify --image or --exec'')
     else
    (let r1 = (if Image r \<noteq> [] then r\<lparr>Image := AddDefaultImagePathPrefix w (Image r)\<rparr> else r)
     in
    (case (if Image r \<noteq> [] then DockerCmdAvailable w else None) of
       Some e \<Rightarrow> Inl e
     | None \<Rightarrow>
    (case ValidateImagePullPolicyValue w (ImagePullPolicy r1) of
       Some e \<Rightarrow> Inl e
     | None \<Rightarrow>
    (case (if ResultsDir r1 \<noteq> [] then MkdirAll w (ResultsDir r1) else None) of
       Some e \<Rightarrow> Inl (ResultsDirError (ResultsDir r1) e)
     | None \<Rightarrow> Inr r1))))))"

definition positionalArgs ::
  "EvalFnRunner \<Rightarrow> string list \<Rightarrow> int \<Rightarrow> error + string list \<times> string list" where
  "positionalArgs r1 args argsLenAtDash =
    (case splitAtDash args argsLenAtDash of
       Inl e \<Rightarrow> Inl e
     | Inr (items, args1) \<Rightarrow>
    (let args2 = (if length args1 = 0 then args1 @ [''.''] else args1)
     in
     if length args2 > 1 then Inl (Errorf argsUsage)
     else if length items > 0 \<and> FnConfigPath r1 \<noteq> []
     then Inl (Errorf ''function arguments can only be specified without function config file'')
     else Inr (items, args2)))"

definition buildRunFns ::
  "world \<Rightarrow> EvalFnRunner \<Rightarrow> string list \<Rightarrow> string list \<Rightarrow> error + EvalFnRunner" where
  "buildRunFns w r1 items args2 =
    (case getCLIFunctionConfig w r1 items of
       Inl e \<Rightarrow> Inl e
     | Inr fnConfig \<Rightarrow>
    (let r2 = r1\<lparr>dataItems := items\<rparr>
     in
    (case getFunctionSpec w r2 of
       Inl e \<Rightarrow> Inl e
     | Inr (fnSpec, execArgs) \<Rightarrow>
    (let r3 = r2\<lparr>OutContent := []\<rparr>;
         fromStdin = (hd args2 = ''-'');
         output = (if fromStdin then OutContentWriter
                   else if Dest r3 \<noteq> [] then OutContentWriter else NoWriter);
         input = (if fromStdin then StdinReader else NoReader);
         r4 = (if fromStdin then r3\<lparr>FromStdin := True\<rparr> else r3);
         args3 = (if fromStdin then [] else args2);
         path = (if length args3 = 1 then hd args3 else []);
         storageMounts = toStorageMounts (Mounts r4)
     in
    (case (if FnConfigPath r4 \<noteq> [] then checkFnConfigPathExistence w (FnConfigPath r4)
           else None) of
       Some e \<Rightarrow> Inl e
     | None \<Rightarrow>
    (case (if path \<noteq> [] then ResolveSymlink w path else Inr path) of
       Inl e \<Rightarrow> Inl e
     | Inr path' \<Rightarrow>
         Inr (r4\<lparr>RunFns :=
           \<lparr>RunFns_Function = Some fnSpec,
            RunFns_ExecArgs = execArgs,
            RunFns_OriginalExec = Exec r4,
            RunFns_Output = output,
            RunFns_Input = input,
            RunFns_Path = path',
            RunFns_Network = Network r4,
            RunFns_StorageMounts = storageMounts,
            RunFns_ResultsDir = ResultsDir r4,
            RunFns_Env = Env r4,
            RunFns_AsCurrentUser = AsCurrentUser r4,
            RunFns_FnConfig = fnConfig,
            RunFns_FnConfigPath = FnConfigPath r4,
            RunFns_IncludeMetaResources = IncludeMetaResources r4,
            RunFns_ImagePullPolicy = StringToImagePullPolicy (ImagePullPolicy r4),
            RunFns_ContinueOnEmptyResult = True,
            RunFns_Selector = Selector r4\<rparr>\<rparr>)))))))"

definition preRunE :: "world \<Rightarrow> EvalFnRunner \<Rightarrow> string list \<Rightarrow> int \<Rightarrow> error + EvalFnRunner" where
  "preRunE w r args argsLenAtDash =
     (case preflightChecks w r of
        Inl e \<Rightarrow> Inl e
      | Inr r1 \<Rightarrow>
          (case positionalArgs r1 args argsLenAtDash of
             Inl e \<Rightarrow> Inl e
           | Inr (items, args2) \<Rightarrow> buildRunFns w r1 items args2))"

subsection \<open>\<open>SaveFnToKptfile\<close>\<close>

record Pipeline =
  Mutators :: "Function list"
  Validators :: "Function list"

record KptFile =
  Pipeline :: "Pipeline option"

datatype printed =
    Printf string
  | PrintfErr string error

text \<open>The loop over the mutators: the message of the first one that stops the save.\<close>

fun findExisting :: "EvalFnRunner \<Rightarrow> Function list \<Rightarrow> string option" where
  "findExisting r [] = None"
| "findExisting r (m # ms) =
     (if Function_Name m = Image r \<or> Function_Image m = Image r
      then Some (''skip adding image: already exists in Kptfile'' @ [CHR 0x0A])
      else if Function_Name m = Exec r \<or> Function_Exec m = Exec r
      then Some (''skip adding exec: already exists in Kptfile'' @ [CHR 0x0A])
      else findExisting r ms)"

text \<open>
  The Kptfiles on disk are a map from the directory handed to \<open>pkg.ReadKptfile\<close> (the empty
  string of an unset \<open>--output\<close> is the current directory) to the manifest read there
  (\<open>None\<close> where reading fails); \<open>writeErr dir\<close> is the error of \<open>kptfileutil.WriteFile\<close>.
  The function returns the disk and what it printed.
\<close>

definition SaveFnToKptfile ::
  "world \<Rightarrow> (string \<Rightarrow> error option) \<Rightarrow> EvalFnRunner \<Rightarrow> (string \<rightharpoonup> KptFile) \<Rightarrow>
   error + (string \<rightharpoonup> KptFile) \<times> printed list" where
  "SaveFnToKptfile w writeErr r disk =
     (case disk (Dest r) of
        None \<Rightarrow> Inr (disk, [Printf (''function not added: Kptfile not exists'' @ [CHR 0x0A])])
      | Some kf \<Rightarrow>
          (let pipeline = (case Pipeline kf of
                             None \<Rightarrow> \<lparr>Mutators = [], Validators = []\<rparr>
                           | Some p \<Rightarrow> p)
           in case findExisting r (Mutators pipeline) of
                Some msg \<Rightarrow> Inr (disk, [Printf msg])
              | None \<Rightarrow>
                  (case NewFunction w r of
                     Inl e \<Rightarrow> Inl e
                   | Inr newFn \<Rightarrow>
                       (let kf' = kf\<lparr>Pipeline :=
                                  Some (pipeline\<lparr>Mutators := Mutators pipeline @ [newFn]\<rparr>)\<rparr>
                        in case writeErr (Dest r) of
                             Some e \<Rightarrow>
                               Inr (disk, [PrintfErr (''function is not added to Kptfile: %v'' @ [CHR 0x0A]) e])
                           | None \<Rightarrow>
                               Inr (disk(Dest r \<mapsto> kf'),
                                    [Printf (''function is added to Kptfile'' @ [CHR 0x0A])])))))"

subsection \<open>The runner of \<open>GetEvalFnRunner\<close> and a world for the examples\<close>

text \<open>
  \<open>GetEvalFnRunner\<close> registers the flags with their defaults: every string empty, every
  switch off, every list empty, and the pull policy \<open>IfNotPresent\<close>.
\<close>

definition GetEvalFnRunner :: EvalFnRunner where
  "GetEvalFnRunner =
     \<lparr>Dest = [], OutContent = [], FromStdin = False, Image = [], SaveFn = False, Exec = [],
      FnConfigPath = [],
      RunFns = \<lparr>RunFns_Function = None, RunFns_ExecArgs = [], RunFns_OriginalExec = [],
                RunFns_Output = NoWriter, RunFns_Input = NoReader, RunFns_Path = [],
                RunFns_Network = False, RunFns_StorageMounts = [], RunFns_ResultsDir = [],
                RunFns_Env = [], RunFns_AsCurrentUser = False, RunFns_FnConfig = None,
                RunFns_FnConfigPath = [], RunFns_IncludeMetaResources = False,
                RunFns_ImagePullPolicy = StringToImagePullPolicy [],
                RunFns_ContinueOnEmptyResult = False,
                RunFns_Selector = \<lparr>Selector_APIVersion = [], Selector_Kind = [],
                                    Selector_Name = [], Selector_Namespace = []\<rparr>\<rparr>,
      ResultsDir = [], ImagePullPolicy = ''IfNotPresent'', Network = False, Mounts = [],
      Env = [], AsCurrentUser = False, IncludeMetaResources = False,
      Selector = \<lparr>Selector_APIVersion = [], Selector_Kind = [],
                  Selector_Name = [], Selector_Namespace = []\<rparr>,
      dataItems = []\<rparr>"

text \<open>
  The checks that \<open>preRunE\<close> makes against the environment before it looks at the
  arguments raise no error: the output directory, the container tool, the pull policy and
  the results directory.
\<close>

definition environmentReady :: "world \<Rightarrow> EvalFnRunner \<Rightarrow> bool" where
  "environmentReady w r \<longleftrightarrow>
     (Dest r = [] \<or> Dest r = Stdout \<or> Dest r = Unwrap \<or>
        CheckDirectoryNotPresent w (Dest r) = None) \<and>
     (Image r = [] \<or> DockerCmdAvailable w = None) \<and>
     ValidateImagePullPolicyValue w (ImagePullPolicy r) = None \<and>
     (ResultsDir r = [] \<or> MkdirAll w (ResultsDir r) = None)"

text \<open>
  The field setter of the examples: on a mapping it replaces the value of a field that
  exists and appends a new field otherwise; the empty field name stands for the node
  itself, which has to be a scalar then.
\<close>

definition fieldSetter :: "string \<Rightarrow> RNode \<Rightarrow> RNode \<Rightarrow> error + RNode" where
  "fieldSetter name value node =
     (case node of
        MapNode fs \<Rightarrow>
          (if name = [] then Inl (External ''wrong Node Kind'')
           else Inr (MapNode (AList.update name value fs)))
      | Scalar s \<Rightarrow>
          (if name = [] then Inr value else Inl (External ''wrong Node Kind'')))"

text \<open>
  A world for the examples: every check passes, every file exists, no path is a symbolic
  link, the tokenizer splits at blanks, every image reference is valid, fields are set by
  \<open>fieldSetter\<close>, and an image name without a slash is unqualified and gets the prefix
  \<open>gcr.io/kpt-fn/\<close>.
\<close>

definition okWorld :: world where
  "okWorld =
     \<lparr>CheckDirectoryNotPresent = (\<lambda>dir. None),
      DockerCmdAvailable = None,
      ValidateImagePullPolicyValue = (\<lambda>policy. None),
      MkdirAll = (\<lambda>dir. None),
      StatIsNotExist = (\<lambda>path. False),
      ResolveSymlink = (\<lambda>path. Inr path),
      shlexSplit = (\<lambda>s. Inr (filter (\<lambda>t. t \<noteq> []) (Split s CHR '' ''))),
      ValidateFunctionImageURL = (\<lambda>img. None),
      RelativePath = (\<lambda>path. path),
      SetField = fieldSetter,
      defaultImagePathPrefix = ''gcr.io/kpt-fn/'',
      isUnqualifiedImage = (\<lambda>img. CHR ''/'' \<notin> set img)\<rparr>"

section \<open>Properties of the package differ\<close>

text \<open>
  C10. Whenever the differ gets as far as running the external diff tool (staging of every
  package succeeded), an exit code of exactly 1 is turned into a nil error and no warning
  is printed; any other exit code reported by the tool is returned as the error, and the
  exit-code warning naming the tool and the diff type has been printed.
\<close>

theorem Diff_exit_code:
  assumes "prepareAll rmAll pkgs = None"
  shows "(run (DiffTool d) (diffArgs d pkgs) = Some (ExitError 1) \<longrightarrow>
            fst (Diff rmAll run d pkgs) = None \<and>
            ExitCodeDiffWarning (DiffTool d) (DiffType d) \<notin> set (snd (Diff rmAll run d pkgs)))
       \<and> (\<forall>code. code \<noteq> 1 \<and> run (DiffTool d) (diffArgs d pkgs) = Some (ExitError code) \<longrightarrow>
            fst (Diff rmAll run d pkgs) = Some (ExitError code) \<and>
            last (snd (Diff rmAll run d pkgs)) = ExitCodeDiffWarning (DiffTool d) (DiffType d))"
  using assms by (auto simp: Diff_def Let_def)

theorem Diff_exit_code_witness:
  "prepareAll (\<lambda>_ _. None) [''/tmp/kpt-1/local-main'', ''/tmp/kpt-1/remote-main''] = None
   \<and> Diff (\<lambda>_ _. None) (\<lambda>_ _. Some (ExitError 1))
        \<lparr>DiffType = ''local'', DiffTool = ''diff'', DiffToolOpts = ''-r -u'', Debug = False\<rparr>
        [''/tmp/kpt-1/local-main'', ''/tmp/kpt-1/remote-main''] = (None, [])
   \<and> Diff (\<lambda>_ _. None) (\<lambda>_ _. Some (ExitError 2))
        \<lparr>DiffType = ''local'', DiffTool = ''diff'', DiffToolOpts = ''-r -u'', Debug = False\<rparr>
        [''/tmp/kpt-1/local-main'', ''/tmp/kpt-1/remote-main'']
       = (Some (ExitError 2), [ExitCodeDiffWarning ''diff'' ''local''])"
  using Diff_exit_code [of "\<lambda>_ _. None" "[''/tmp/kpt-1/local-main'', ''/tmp/kpt-1/remote-main'']"
      "\<lambda>_ _. Some (ExitError 1)"
      "\<lparr>DiffType = ''local'', DiffTool = ''diff'', DiffToolOpts = ''-r -u'', Debug = False\<rparr>"]
    Diff_exit_code [of "\<lambda>_ _. None" "[''/tmp/kpt-1/local-main'', ''/tmp/kpt-1/remote-main'']"
      "\<lambda>_ _. Some (ExitError 2)"
      "\<lparr>DiffType = ''local'', DiffTool = ''diff'', DiffToolOpts = ''-r -u'', Debug = False\<rparr>"]
  by (simp add: Diff_def prepareForDiff_def diffArgs_def)

section \<open>Properties of the error resolver\<close>

lemma render_path_mem:
  "map_of args ''path'' = Some (StringVal p) \<Longrightarrow> PrintfQ ''path'' \<in> set tmpl \<Longrightarrow>
   Quoted p \<in> set (ExecuteTemplate tmpl args)"
  by (force simp: ExecuteTemplate_def)

lemma resolveNestedErr_cites:
  assumes "map_of args ''path'' = Some (StringVal p)"
  shows "snd (resolveNestedErr e args) \<and> Quoted p \<in> set (Message (fst (resolveNestedErr e args)))"
  using assms
  by (auto simp: resolveNestedErr_def noKptfileMsg_def deprecatedKptfileMsg_def
      unknownKptfileResourceMsg_def kptfileReadErrMsg_def update_conv
      intro!: render_path_mem split: option.splits)

lemma Resolve_local:
  assumes "AsKptfileError e = Some (path, k)"
  shows "snd (Resolve e) \<and> Quoted path \<in> set (Message (fst (Resolve e)))"
proof -
  have "Resolve e = resolveNestedErr k [(''path'', StringVal path), (''err'', ErrVal (Some k))]"
    using assms by (simp add: Resolve_def)
  then show ?thesis
    using resolveNestedErr_cites [of "[(''path'', StringVal path), (''err'', ErrVal (Some k))]" path k]
    by simp
qed

lemma Resolve_remote:
  assumes "AsKptfileError e = None" and "AsRemoteKptfileError e = Some (ref, k)"
  shows "snd (Resolve e) \<and> Quoted ref \<in> set (Message (fst (Resolve e)))"
proof -
  have "Resolve e = resolveNestedErr k [(''path'', StringVal ref), (''err'', ErrVal None)]"
    using assms by (simp add: Resolve_def)
  then show ?thesis
    using resolveNestedErr_cites [of "[(''path'', StringVal ref), (''err'', ErrVal None)]" ref k]
    by simp
qed

lemma Resolve_missing:
  "Resolve (KptfileError path ErrNotExist) =
     (\<lparr>Message = [Text [CHR 0x0A], Text ''Error: No Kptfile found at '', Quoted path,
                  Text ''.'', Text [CHR 0x0A]]\<rparr>, True)"
  by (simp add: Resolve_def resolveNestedErr_def ExecuteTemplate_def noKptfileMsg_def)

lemma Resolve_deprecated:
  "Resolve (KptfileError path (DeprecatedKptfileError v)) =
     (\<lparr>Message = [Text [CHR 0x0A], Text ''Error: Kptfile at '', Quoted path,
        Text '' has an old version ('', Quoted v,
        Text '') of the Kptfile schema. Please update the package to the latest format. See https://kpt.dev/installation/migration for more details.'',
        Text [CHR 0x0A]]\<rparr>, True)"
  by (simp add: Resolve_def resolveNestedErr_def ExecuteTemplate_def deprecatedKptfileMsg_def)

lemma Resolve_unknown:
  "Resolve (KptfileError path (UnknownKptfileResourceError gvk)) =
     (\<lparr>Message = [Text [CHR 0x0A], Text ''Error: Kptfile at '', Quoted path,
        Text '' has an unknown resource type ('', Quoted (GVK_String gvk), Text '').'',
        Text [CHR 0x0A]]\<rparr>, True)"
  by (simp add: Resolve_def resolveNestedErr_def ExecuteTemplate_def unknownKptfileResourceMsg_def)

lemma Resolve_unreadable:
  "Resolve (KptfileError path (Opaque m)) =
     (\<lparr>Message = [Text [CHR 0x0A], Text ''Error: Kptfile at '', Quoted path,
        Text '' can't be read.'', NestedDetails (Some (KptfileError path (Opaque m))),
        Text [CHR 0x0A]]\<rparr>, True)"
  by (simp add: Resolve_def resolveNestedErr_def ExecuteTemplate_def kptfileReadErrMsg_def)

text \<open>
  C4. Every error whose chain holds a \<open>KptfileError\<close> resolves successfully to a message
  that quotes the path of that Kptfile, and every error whose chain holds a
  \<open>RemoteKptfileError\<close> (and no \<open>KptfileError\<close>) resolves successfully to a message that
  quotes the repo reference, whatever the nested error is. For the four kinds of manifest
  error (file missing, deprecated schema version, unknown resource type, unreadable) the
  messages are the four templates of the source, each with the path.
\<close>

theorem Resolve_manifest_error:
  "(AsKptfileError e = Some (path, k) \<longrightarrow>
      snd (Resolve e) \<and> Quoted path \<in> set (Message (fst (Resolve e))))
   \<and> (AsKptfileError e = None \<and> AsRemoteKptfileError e = Some (ref, k') \<longrightarrow>
      snd (Resolve e) \<and> Quoted ref \<in> set (Message (fst (Resolve e))))
   \<and> Resolve (KptfileError p ErrNotExist) =
       (\<lparr>Message = [Text [CHR 0x0A], Text ''Error: No Kptfile found at '', Quoted p,
                    Text ''.'', Text [CHR 0x0A]]\<rparr>, True)
   \<and> Resolve (KptfileError p (DeprecatedKptfileError v)) =
       (\<lparr>Message = [Text [CHR 0x0A], Text ''Error: Kptfile at '', Quoted p,
          Text '' has an old version ('', Quoted v,
          Text '') of the Kptfile schema. Please update the package to the latest format. See https://kpt.dev/installation/migration for more details.'',
          Text [CHR 0x0A]]\<rparr>, True)
   \<and> Resolve (KptfileError p (UnknownKptfileResourceError gvk)) =
       (\<lparr>Message = [Text [CHR 0x0A], Text ''Error: Kptfile at '', Quoted p,
          Text '' has an unknown resource type ('', Quoted (GVK_String gvk), Text '').'',
          Text [CHR 0x0A]]\<rparr>, True)
   \<and> Resolve (KptfileError p (Opaque m)) =
       (\<lparr>Message = [Text [CHR 0x0A], Text ''Error: Kptfile at '', Quoted p,
          Text '' can't be read.'', NestedDetails (Some (KptfileError p (Opaque m))),
          Text [CHR 0x0A]]\<rparr>, True)"
  using Resolve_local [of e path k] Resolve_remote [of e ref k']
    Resolve_missing [of p] Resolve_deprecated [of p v] Resolve_unknown [of p gvk]
    Resolve_unreadable [of p m]
  by simp

theorem Resolve_manifest_error_witness:
  "AsKptfileError (Wrap ''pkg.Read'' (KptfileError ''/pkgs/app'' (Opaque ''yaml: line 3''))) =
     Some (''/pkgs/app'', KptfileError ''/pkgs/app'' (Opaque ''yaml: line 3''))
   \<and> snd (Resolve (Wrap ''pkg.Read'' (KptfileError ''/pkgs/app'' (Opaque ''yaml: line 3''))))
   \<and> Quoted ''/pkgs/app'' \<in>
       set (Message (fst (Resolve (Wrap ''pkg.Read'' (KptfileError ''/pkgs/app'' (Opaque ''yaml: line 3''))))))
   \<and> AsKptfileError (RemoteKptfileError ''https://github.com/org/repo@main'' ErrNotExist) = None
   \<and> AsRemoteKptfileError (RemoteKptfileError ''https://github.com/org/repo@main'' ErrNotExist) =
       Some (''https://github.com/org/repo@main'',
             RemoteKptfileError ''https://github.com/org/repo@main'' ErrNotExist)
   \<and> snd (Resolve (RemoteKptfileError ''https://github.com/org/repo@main'' ErrNotExist))
   \<and> Quoted ''https://github.com/org/repo@main'' \<in>
       set (Message (fst (Resolve (RemoteKptfileError ''https://github.com/org/repo@main'' ErrNotExist))))"
  using Resolve_manifest_error
      [of "Wrap ''pkg.Read'' (KptfileError ''/pkgs/app'' (Opaque ''yaml: line 3''))" "''/pkgs/app''"
          "KptfileError ''/pkgs/app'' (Opaque ''yaml: line 3'')"]
    Resolve_manifest_error
      [of "RemoteKptfileError ''https://github.com/org/repo@main'' ErrNotExist" _ _
          "''https://github.com/org/repo@main''"
          "RemoteKptfileError ''https://github.com/org/repo@main'' ErrNotExist"]
  by simp

text \<open>
  C5. A Kptfile of the manifest's group and kind whose schema version is one of the old
  ones is not loaded: the loader returns the deprecation error for its path and version
  and no manifest. The resolver turns that error into the message that quotes the path and
  the old version and tells the user to update the package, pointing to the migration
  guide.
\<close>

theorem deprecated_Kptfile_rejected:
  assumes "gvk \<noteq> current" and "Group gvk = Group current" and "Kind gvk = Kind current"
    and "Version gvk \<in> set deprecated"
  shows "ReadKptfile current deprecated path (Document gvk) =
           Inl (KptfileError path (DeprecatedKptfileError (Version gvk)))
       \<and> Resolve (KptfileError path (DeprecatedKptfileError (Version gvk))) =
           (\<lparr>Message = [Text [CHR 0x0A], Text ''Error: Kptfile at '', Quoted path,
              Text '' has an old version ('', Quoted (Version gvk),
              Text '') of the Kptfile schema. Please update the package to the latest format. See https://kpt.dev/installation/migration for more details.'',
              Text [CHR 0x0A]]\<rparr>, True)"
  using assms Resolve_deprecated [of path "Version gvk"]
  by (simp add: ReadKptfile_def)

theorem deprecated_Kptfile_rejected_witness:
  "\<lparr>Group = ''kpt.dev'', Version = ''v1alpha2'', Kind = ''Kptfile''\<rparr>
     \<noteq> \<lparr>Group = ''kpt.dev'', Version = ''v1'', Kind = ''Kptfile''\<rparr>
   \<and> ''v1alpha2'' \<in> set [''v1alpha1'', ''v1alpha2'']
   \<and> ReadKptfile \<lparr>Group = ''kpt.dev'', Version = ''v1'', Kind = ''Kptfile''\<rparr>
        [''v1alpha1'', ''v1alpha2''] ''/pkgs/app''
        (Document \<lparr>Group = ''kpt.dev'', Version = ''v1alpha2'', Kind = ''Kptfile''\<rparr>) =
       Inl (KptfileError ''/pkgs/app'' (DeprecatedKptfileError ''v1alpha2''))
   \<and> snd (Resolve (KptfileError ''/pkgs/app'' (DeprecatedKptfileError ''v1alpha2'')))"
  using deprecated_Kptfile_rejected
      [of "\<lparr>Group = ''kpt.dev'', Version = ''v1alpha2'', Kind = ''Kptfile''\<rparr>"
          "\<lparr>Group = ''kpt.dev'', Version = ''v1'', Kind = ''Kptfile''\<rparr>"
          "[''v1alpha1'', ''v1alpha2'']" "''/pkgs/app''"]
  by simp

section \<open>Properties of the eval command\<close>

subsection \<open>The parts of \<open>preRunE\<close>\<close>

text \<open>The definitions that evaluate \<open>preRunE\<close> on a concrete invocation.\<close>

lemmas preRunE_eval =
  preRunE_def preflightChecks_def positionalArgs_def buildRunFns_def
  splitAtDash_def getCLIFunctionConfig_def getFunctionSpec_def okWorld_def
  GetEvalFnRunner_def AddDefaultImagePathPrefix_def toStorageMounts_def
  checkFnConfigPathExistence_def Stdout_def Unwrap_def argsUsage_def fieldSetter_def


lemma AddDefaultImagePathPrefix_nonempty:
  "img \<noteq> [] \<Longrightarrow> AddDefaultImagePathPrefix w img \<noteq> []"
  by (simp add: AddDefaultImagePathPrefix_def)

lemma preflightChecks_Inr:
  assumes "preflightChecks w r = Inr r1"
  shows "(Image r \<noteq> [] \<or> Exec r \<noteq> [])
       \<and> r1 = (if Image r \<noteq> [] then r\<lparr>Image := AddDefaultImagePathPrefix w (Image r)\<rparr> else r)"
proof (cases "Image r = []")
  case True
  with assms show ?thesis
    unfolding preflightChecks_def Let_def
    by (simp split: option.splits if_splits)
next
  case False
  with assms show ?thesis
    unfolding preflightChecks_def Let_def
    by (simp split: option.splits if_splits)
qed

lemma preflightChecks_ready:
  assumes "environmentReady w r" and "Image r \<noteq> [] \<or> Exec r \<noteq> []"
  shows "preflightChecks w r =
           Inr (if Image r \<noteq> [] then r\<lparr>Image := AddDefaultImagePathPrefix w (Image r)\<rparr> else r)"
proof (cases "Image r = []")
  case True
  with assms show ?thesis
    unfolding preflightChecks_def environmentReady_def Let_def by auto
next
  case False
  with assms show ?thesis
    unfolding preflightChecks_def environmentReady_def Let_def by auto
qed

lemma positionalArgs_Inr:
  assumes "positionalArgs r1 args d = Inr (items, args2)"
  shows "\<exists>args1. splitAtDash args d = Inr (items, args1) \<and> length args1 \<le> 1
           \<and> args2 = (if args1 = [] then [''.''] else args1)
           \<and> (items = [] \<or> FnConfigPath r1 = [])"
proof (cases "splitAtDash args d")
  case (Inl e)
  with assms show ?thesis by (simp add: positionalArgs_def)
next
  case (Inr p)
  obtain items' args1 where p: "p = (items', args1)" by (cases p)
  with assms Inr show ?thesis
    by (cases "args1 = []") (auto simp: positionalArgs_def split: if_splits)
qed

lemma buildRunFns_Inr:
  assumes "buildRunFns w r1 items args2 = Inr r'"
  shows "\<exists>fnConfig fnSpec execArgs.
      getCLIFunctionConfig w r1 items = Inr fnConfig
    \<and> getFunctionSpec w (r1\<lparr>dataItems := items\<rparr>) = Inr (fnSpec, execArgs)
    \<and> Image r' = Image r1 \<and> Exec r' = Exec r1 \<and> FnConfigPath r' = FnConfigPath r1
    \<and> dataItems r' = items
    \<and> FromStdin r' = (if hd args2 = ''-'' then True else FromStdin r1)
    \<and> RunFns_Function (RunFns r') = Some fnSpec
    \<and> RunFns_ExecArgs (RunFns r') = execArgs
    \<and> RunFns_FnConfig (RunFns r') = fnConfig
    \<and> RunFns_Input (RunFns r') = (if hd args2 = ''-'' then StdinReader else NoReader)
    \<and> RunFns_Output (RunFns r') =
          (if hd args2 = ''-'' \<or> Dest r1 \<noteq> [] then OutContentWriter else NoWriter)
    \<and> (if hd args2 = ''-'' \<or> length args2 \<noteq> 1 \<or> hd args2 = [] then Inr []
        else ResolveSymlink w (hd args2)) = Inr (RunFns_Path (RunFns r'))"
proof (cases "getCLIFunctionConfig w r1 items")
  case (Inl e)
  with assms show ?thesis by (simp add: buildRunFns_def)
next
  case cfg: (Inr fnConfig)
  show ?thesis
  proof (cases "getFunctionSpec w (r1\<lparr>dataItems := items\<rparr>)")
    case (Inl e)
    with assms cfg show ?thesis by (simp add: buildRunFns_def)
  next
    case (Inr p)
    obtain fnSpec execArgs where p: "p = (fnSpec, execArgs)" by (cases p)
    note spec = Inr [unfolded p]
    have chk_cases: "FnConfigPath r1 = []
        \<or> (FnConfigPath r1 \<noteq> [] \<and> StatIsNotExist w (FnConfigPath r1))
        \<or> (FnConfigPath r1 \<noteq> [] \<and> \<not> StatIsNotExist w (FnConfigPath r1))" by blast
    show ?thesis
    proof (cases "hd args2 = ''-''")
      case True
      have "Image r' = Image r1 \<and> Exec r' = Exec r1 \<and> FnConfigPath r' = FnConfigPath r1
          \<and> dataItems r' = items \<and> FromStdin r' = True
          \<and> RunFns_Function (RunFns r') = Some fnSpec
          \<and> RunFns_ExecArgs (RunFns r') = execArgs
          \<and> RunFns_FnConfig (RunFns r') = fnConfig
          \<and> RunFns_Input (RunFns r') = StdinReader
          \<and> RunFns_Output (RunFns r') = OutContentWriter
          \<and> RunFns_Path (RunFns r') = []"
        using chk_cases assms cfg spec True
        by (elim disjE conjE)
          (auto simp add: buildRunFns_def Let_def checkFnConfigPathExistence_def)
      then show ?thesis using cfg spec True by simp
    next
      case False
      have path_cases: "(length args2 = 1 \<and> hd args2 \<noteq> []) \<or> (length args2 = 1 \<and> hd args2 = [])
         \<or> length args2 \<noteq> 1" by blast
      have "Image r' = Image r1 \<and> Exec r' = Exec r1 \<and> FnConfigPath r' = FnConfigPath r1
          \<and> dataItems r' = items \<and> FromStdin r' = FromStdin r1
          \<and> RunFns_Function (RunFns r') = Some fnSpec
          \<and> RunFns_ExecArgs (RunFns r') = execArgs
          \<and> RunFns_FnConfig (RunFns r') = fnConfig
          \<and> RunFns_Input (RunFns r') = NoReader
          \<and> RunFns_Output (RunFns r') = (if Dest r1 \<noteq> [] then OutContentWriter else NoWriter)
          \<and> (if length args2 \<noteq> 1 \<or> hd args2 = [] then Inr []
              else ResolveSymlink w (hd args2)) = Inr (RunFns_Path (RunFns r'))"
        using chk_cases path_cases assms cfg spec False
        by (elim disjE conjE)
          (auto simp add: buildRunFns_def Let_def checkFnConfigPathExistence_def split: sum.splits)
      then show ?thesis using cfg spec False by simp
    qed
  qed
qed

lemma preRunE_Inr:
  assumes "preRunE w r args d = Inr r'"
  obtains r1 items args2 where "preflightChecks w r = Inr r1"
    and "positionalArgs r1 args d = Inr (items, args2)"
    and "buildRunFns w r1 items args2 = Inr r'"
  using assms unfolding preRunE_def
  by (auto split: sum.splits prod.splits)

lemma getCLIFunctionConfig_Exec:
  "Image r \<noteq> [] \<Longrightarrow>
   getCLIFunctionConfig w (r\<lparr>Exec := x\<rparr>) items = getCLIFunctionConfig w r items"
  by (simp add: getCLIFunctionConfig_def)

lemma getFunctionSpec_Exec:
  "Image r \<noteq> [] \<Longrightarrow>
   getFunctionSpec w (r\<lparr>Exec := x, dataItems := items\<rparr>) = getFunctionSpec w (r\<lparr>dataItems := items\<rparr>)"
  by (simp add: getFunctionSpec_def split: option.splits)

lemma preflightChecks_Exec:
  assumes "Image r \<noteq> []"
  shows "isl (preflightChecks w (r\<lparr>Exec := x\<rparr>)) = isl (preflightChecks w r)"
  using assms unfolding preflightChecks_def Let_def
  by (simp split: option.splits)

lemma positionalArgs_FnConfigPath:
  "FnConfigPath r2 = FnConfigPath r1 \<Longrightarrow> positionalArgs r2 args d = positionalArgs r1 args d"
  by (simp add: positionalArgs_def split: sum.splits prod.splits)

lemma buildRunFns_isl:
  "isl (buildRunFns w r1 items args2) \<longleftrightarrow>
     isl (getCLIFunctionConfig w r1 items)
   \<or> isl (getFunctionSpec w (r1\<lparr>dataItems := items\<rparr>))
   \<or> (FnConfigPath r1 \<noteq> [] \<and> StatIsNotExist w (FnConfigPath r1))
   \<or> (hd args2 \<noteq> ''-'' \<and> length args2 = 1 \<and> hd args2 \<noteq> [] \<and> isl (ResolveSymlink w (hd args2)))"
proof (cases "getCLIFunctionConfig w r1 items")
  case (Inl e)
  then show ?thesis by (simp add: buildRunFns_def)
next
  case cfg: (Inr fnConfig)
  show ?thesis
  proof (cases "getFunctionSpec w (r1\<lparr>dataItems := items\<rparr>)")
    case (Inl e)
    with cfg show ?thesis by (simp add: buildRunFns_def)
  next
    case (Inr p)
    obtain fnSpec execArgs where p: "p = (fnSpec, execArgs)" by (cases p)
    note spec = Inr [unfolded p]
    have chk_cases: "FnConfigPath r1 = []
        \<or> (FnConfigPath r1 \<noteq> [] \<and> StatIsNotExist w (FnConfigPath r1))
        \<or> (FnConfigPath r1 \<noteq> [] \<and> \<not> StatIsNotExist w (FnConfigPath r1))" by blast
    have path_cases: "hd args2 = ''-'' \<or> (hd args2 \<noteq> ''-'' \<and> length args2 = 1 \<and> hd args2 \<noteq> [])
         \<or> (hd args2 \<noteq> ''-'' \<and> length args2 = 1 \<and> hd args2 = [])
         \<or> (hd args2 \<noteq> ''-'' \<and> length args2 \<noteq> 1)" by blast
    show ?thesis
      using chk_cases path_cases cfg spec
      by (elim disjE conjE)
        (auto simp add: buildRunFns_def Let_def checkFnConfigPathExistence_def split: sum.splits)
  qed
qed


lemma preRunE_isl_Exec:
  assumes "Image r \<noteq> []"
  shows "isl (preRunE w (r\<lparr>Exec := x\<rparr>) args d) = isl (preRunE w r args d)"
proof (cases "preflightChecks w r")
  case (Inl e)
  with preflightChecks_Exec [OF assms, of w x] show ?thesis
    by (auto simp: preRunE_def split: sum.splits)
next
  case (Inr r1)
  from preflightChecks_Inr [OF Inr] assms
  have r1: "r1 = r\<lparr>Image := AddDefaultImagePathPrefix w (Image r)\<rparr>" by simp
  from preflightChecks_Exec [OF assms, of w x] Inr
  obtain r1' where pc': "preflightChecks w (r\<lparr>Exec := x\<rparr>) = Inr r1'"
    by (cases "preflightChecks w (r\<lparr>Exec := x\<rparr>)") auto
  from preflightChecks_Inr [OF pc'] assms r1 have r1': "r1' = r1\<lparr>Exec := x\<rparr>" by simp
  have img: "Image r1 \<noteq> []" using r1 assms by (simp add: AddDefaultImagePathPrefix_nonempty)
  have pa: "positionalArgs r1' args d = positionalArgs r1 args d"
    by (rule positionalArgs_FnConfigPath) (simp add: r1')
  show ?thesis
  proof (cases "positionalArgs r1 args d")
    case (Inl e)
    with Inr pc' pa show ?thesis by (simp add: preRunE_def)
  next
    case (Inr p)
    obtain items args2 where p: "p = (items, args2)" by (cases p)
    have "isl (buildRunFns w r1' items args2) = isl (buildRunFns w r1 items args2)"
      using img getCLIFunctionConfig_Exec [OF img, of w x items]
        getFunctionSpec_Exec [OF img, where w = w and x = x and items = items]
      by (simp add: buildRunFns_isl r1')
    with \<open>preflightChecks w r = Inr r1\<close> pc' pa Inr p show ?thesis
      by (simp add: preRunE_def)
  qed
qed

subsection \<open>Image or executable\<close>

lemma preRunE_neither:
  assumes "Image r = []" and "Exec r = []"
  shows "isl (preRunE w r args d)"
    and "Dest r = [] \<or> Dest r = Stdout \<or> Dest r = Unwrap \<or> CheckDirectoryNotPresent w (Dest r) = None
         \<Longrightarrow> preRunE w r args d = Inl (Errorf ''must specify --image or --exec'')"
proof -
  show "isl (preRunE w r args d)"
  proof (cases "preRunE w r args d")
    case (Inl e)
    then show ?thesis by simp
  next
    case (Inr r')
    then obtain r1 where "preflightChecks w r = Inr r1" by (rule preRunE_Inr)
    from preflightChecks_Inr [OF this] assms show ?thesis by simp
  qed
next
  assume "Dest r = [] \<or> Dest r = Stdout \<or> Dest r = Unwrap \<or> CheckDirectoryNotPresent w (Dest r) = None"
  with assms have "preflightChecks w r = Inl (Errorf ''must specify --image or --exec'')"
    unfolding preflightChecks_def by auto
  then show "preRunE w r args d = Inl (Errorf ''must specify --image or --exec'')"
    by (simp add: preRunE_def)
qed

lemma getFunctionSpec_image:
  "Image r \<noteq> [] \<Longrightarrow> getFunctionSpec w r =
     (case ValidateFunctionImageURL w (Image r) of
        Some e \<Rightarrow> Inl e
      | None \<Rightarrow> Inr (\<lparr>Container_Image = Image r, Exec_Path = []\<rparr>, []))"
  by (simp add: getFunctionSpec_def split: option.splits)

lemma preRunE_image_spec:
  assumes "Image r \<noteq> []" and "preRunE w r args d = Inr r'"
  shows "Image r' = AddDefaultImagePathPrefix w (Image r)
       \<and> ValidateFunctionImageURL w (Image r') = None
       \<and> RunFns_Function (RunFns r') = Some \<lparr>Container_Image = Image r', Exec_Path = []\<rparr>
       \<and> RunFns_ExecArgs (RunFns r') = []"
proof -
  from assms(2) obtain r1 items args2 where
    pc: "preflightChecks w r = Inr r1" and b: "buildRunFns w r1 items args2 = Inr r'"
    by (rule preRunE_Inr)
  from preflightChecks_Inr [OF pc] assms(1)
  have r1: "r1 = r\<lparr>Image := AddDefaultImagePathPrefix w (Image r)\<rparr>" by simp
  then have img: "Image r1 = AddDefaultImagePathPrefix w (Image r)" by simp
  with assms(1) have ne: "Image (r1\<lparr>dataItems := items\<rparr>) \<noteq> []"
    by (simp add: AddDefaultImagePathPrefix_nonempty)
  from buildRunFns_Inr [OF b] obtain fnConfig fnSpec execArgs where
    spec: "getFunctionSpec w (r1\<lparr>dataItems := items\<rparr>) = Inr (fnSpec, execArgs)"
    and f: "Image r' = Image r1" "RunFns_Function (RunFns r') = Some fnSpec"
      "RunFns_ExecArgs (RunFns r') = execArgs"
    by blast
  from spec getFunctionSpec_image [OF ne, of w]
  have "ValidateFunctionImageURL w (Image r1) = None
      \<and> fnSpec = \<lparr>Container_Image = Image r1, Exec_Path = []\<rparr> \<and> execArgs = []"
    by (auto split: option.splits)
  with f img show ?thesis by simp
qed

lemma NewFunction_one_of:
  assumes "Image r \<noteq> [] \<or> Exec r \<noteq> []" and "NewFunction w r = Inr f"
  shows "Function_Image f = [] \<longleftrightarrow> Function_Exec f \<noteq> []"
  using assms
  by (cases "Image r = []"; cases "FnConfigPath r = []"; cases "Selector_IsEmpty (Selector r)")
     (auto simp: NewFunction_def Let_def split: sum.splits if_splits)

lemma preRunE_function_given:
  assumes "preRunE w r args d = Inr r'"
  shows "Image r' \<noteq> [] \<or> Exec r' \<noteq> []"
proof -
  from assms obtain r1 items args2 where
    pc: "preflightChecks w r = Inr r1" and b: "buildRunFns w r1 items args2 = Inr r'"
    by (rule preRunE_Inr)
  from preflightChecks_Inr [OF pc]
  have "Image r1 \<noteq> [] \<or> Exec r1 \<noteq> []"
    by (auto simp: AddDefaultImagePathPrefix_nonempty split: if_splits)
  moreover from buildRunFns_Inr [OF b] have "Image r' = Image r1" "Exec r' = Exec r1"
    by blast+
  ultimately show ?thesis by simp
qed

text \<open>
  C1, as the code has it. An invocation that gives neither \<open>--image\<close> nor \<open>--exec\<close> never
  passes \<open>preRunE\<close>, which itself runs no function; the error is "must specify --image or
  --exec" when the check of the output directory, which comes first, raises none. An
  invocation that gives an image is resolved as a container function whether or not
  \<open>--exec\<close> is given as well: the function spec carries the image and no executable path,
  and whether \<open>preRunE\<close> fails does not depend on what \<open>--exec\<close> is. The function declaration
  that \<open>NewFunction\<close> builds has exactly one of image and exec, for every runner with a
  function and so after every successful \<open>preRunE\<close>.
\<close>

theorem preRunE_image_or_exec:
  "(Image r = [] \<and> Exec r = [] \<longrightarrow> isl (preRunE w r args d))
   \<and> (Image r = [] \<and> Exec r = [] \<and>
        (Dest r = [] \<or> Dest r = Stdout \<or> Dest r = Unwrap \<or>
         CheckDirectoryNotPresent w (Dest r) = None) \<longrightarrow>
        preRunE w r args d = Inl (Errorf ''must specify --image or --exec''))
   \<and> (Image r \<noteq> [] \<longrightarrow>
        getFunctionSpec w r =
          (case ValidateFunctionImageURL w (Image r) of
             Some e \<Rightarrow> Inl e
           | None \<Rightarrow> Inr (\<lparr>Container_Image = Image r, Exec_Path = []\<rparr>, [])))
   \<and> (\<forall>r'. Image r \<noteq> [] \<and> preRunE w r args d = Inr r' \<longrightarrow>
        RunFns_Function (RunFns r') = Some \<lparr>Container_Image = Image r', Exec_Path = []\<rparr> \<and>
        RunFns_ExecArgs (RunFns r') = [])
   \<and> (\<forall>x. Image r \<noteq> [] \<longrightarrow>
        isl (preRunE w (r\<lparr>Exec := x\<rparr>) args d) = isl (preRunE w r args d))
   \<and> (\<forall>f. (Image r \<noteq> [] \<or> Exec r \<noteq> []) \<and> NewFunction w r = Inr f \<longrightarrow>
        (Function_Image f = [] \<longleftrightarrow> Function_Exec f \<noteq> []))
   \<and> (\<forall>r' f. preRunE w r args d = Inr r' \<and> NewFunction w r' = Inr f \<longrightarrow>
        (Function_Image f = [] \<longleftrightarrow> Function_Exec f \<noteq> []))"
proof -
  have last: "Function_Image f = [] \<longleftrightarrow> Function_Exec f \<noteq> []"
    if "preRunE w r args d = Inr r'" "NewFunction w r' = Inr f" for r' f
    using NewFunction_one_of [OF preRunE_function_given [OF that(1)] that(2)] .
  show ?thesis
    using preRunE_neither [of r w args d] getFunctionSpec_image [of r w]
      preRunE_image_spec [of r w args d] NewFunction_one_of [of r w]
      preRunE_isl_Exec [of r w _ args d] last
    by blast
qed

theorem preRunE_image_or_exec_witness:
  "Image GetEvalFnRunner = [] \<and> Exec GetEvalFnRunner = [] \<and> Dest GetEvalFnRunner = []
   \<and> preRunE okWorld GetEvalFnRunner [''pkg''] (- 1) =
       Inl (Errorf ''must specify --image or --exec'')
   \<and> Image (GetEvalFnRunner\<lparr>Image := ''gcr.io/kpt-fn/set-namespace:v0.1'', Exec := ''./my-fn''\<rparr>) \<noteq> []
   \<and> getFunctionSpec okWorld
        (GetEvalFnRunner\<lparr>Image := ''gcr.io/kpt-fn/set-namespace:v0.1'', Exec := ''./my-fn''\<rparr>) =
       Inr (\<lparr>Container_Image = ''gcr.io/kpt-fn/set-namespace:v0.1'', Exec_Path = []\<rparr>, [])"
  using preRunE_image_or_exec [of GetEvalFnRunner okWorld "[''pkg'']" "- 1"]
    preRunE_image_or_exec
      [of "GetEvalFnRunner\<lparr>Image := ''gcr.io/kpt-fn/set-namespace:v0.1'', Exec := ''./my-fn''\<rparr>"
          okWorld "[]" "- 1"]
  by (simp add: GetEvalFnRunner_def okWorld_def)

text \<open>
  The claim as stated fails where both flags are given: with every collaborator
  succeeding, \<open>--image gcr.io/kpt-fn/set-namespace:v0.1 --exec ./my-fn\<close> passes \<open>preRunE\<close>,
  and the function to run is the container image.
\<close>

theorem preRunE_both_counterexample:
  "preRunE okWorld
     (GetEvalFnRunner\<lparr>Image := ''gcr.io/kpt-fn/set-namespace:v0.1'', Exec := ''./my-fn''\<rparr>)
     [] (- 1) =
   Inr (GetEvalFnRunner
     \<lparr>Image := ''gcr.io/kpt-fn/set-namespace:v0.1'', Exec := ''./my-fn'',
      RunFns := \<lparr>RunFns_Function = Some \<lparr>Container_Image = ''gcr.io/kpt-fn/set-namespace:v0.1'', Exec_Path = []\<rparr>,
        RunFns_ExecArgs = [], RunFns_OriginalExec = ''./my-fn'',
        RunFns_Output = NoWriter, RunFns_Input = NoReader, RunFns_Path = ''.'',
        RunFns_Network = False, RunFns_StorageMounts = [], RunFns_ResultsDir = [],
        RunFns_Env = [], RunFns_AsCurrentUser = False,
        RunFns_FnConfig = Some (MapNode [(''metadata'', MapNode [(''name'', Scalar ''function-input'')]),
             (''data'', MapNode []), (''kind'', Scalar ''ConfigMap''), (''apiVersion'', Scalar ''v1'')]),
        RunFns_FnConfigPath = [], RunFns_IncludeMetaResources = False,
        RunFns_ImagePullPolicy = StringToImagePullPolicy ''IfNotPresent'',
        RunFns_ContinueOnEmptyResult = True,
        RunFns_Selector = \<lparr>Selector_APIVersion = [], Selector_Kind = [],
                            Selector_Name = [], Selector_Namespace = []\<rparr>\<rparr>\<rparr>)"
  by (simp add: preRunE_def preflightChecks_def positionalArgs_def buildRunFns_def
      splitAtDash_def getCLIFunctionConfig_def getFunctionSpec_def okWorld_def
      GetEvalFnRunner_def AddDefaultImagePathPrefix_def toStorageMounts_def
      checkFnConfigPathExistence_def Stdout_def Unwrap_def fieldSetter_def)

subsection \<open>Executable functions\<close>

lemma getFunctionSpec_exec_flags:
  assumes "Image r = []" and "Exec r \<noteq> []"
    and "AsCurrentUser r \<or> Network r \<or> Mounts r \<noteq> [] \<or> Env r \<noteq> []"
  shows "getFunctionSpec w r =
    Inl (Errorf ''--mount, --as-current-user, --network and --env can only be used with container functions'')"
  using assms by (auto simp: getFunctionSpec_def)

lemma getFunctionSpec_exec_split:
  assumes "Image r = []" and "Exec r \<noteq> []"
    and "\<not> AsCurrentUser r" and "\<not> Network r" and "Mounts r = []" and "Env r = []"
  shows "getFunctionSpec w r =
     (case shlexSplit w (Exec r) of
        Inl e \<Rightarrow> Inl (ExecCommandError (Exec r) e)
      | Inr [] \<Rightarrow> Inr (\<lparr>Container_Image = [], Exec_Path = []\<rparr>, [])
      | Inr (path # rest) \<Rightarrow> Inr (\<lparr>Container_Image = [], Exec_Path = path\<rparr>, rest))"
  using assms by (simp add: getFunctionSpec_def split: sum.splits list.splits)

lemma preRunE_exec_spec:
  assumes "Image r = []" and "preRunE w r args d = Inr r'"
  shows "\<exists>items. getFunctionSpec w (r\<lparr>dataItems := items\<rparr>) =
           Inr (the (RunFns_Function (RunFns r')), RunFns_ExecArgs (RunFns r'))
         \<and> RunFns_Function (RunFns r') \<noteq> None"
proof -
  from assms(2) obtain r1 items args2 where
    pc: "preflightChecks w r = Inr r1" and b: "buildRunFns w r1 items args2 = Inr r'"
    by (rule preRunE_Inr)
  from preflightChecks_Inr [OF pc] assms(1) have r1: "r1 = r" by simp
  from buildRunFns_Inr [OF b] r1 show ?thesis by auto
qed

text \<open>
  C2. For an invocation with \<open>--exec\<close> and no image: if any of \<open>--as-current-user\<close>,
  \<open>--network\<close>, \<open>--mount\<close> or \<open>--env\<close> is given, resolving the function fails with the
  error that these flags are for container functions, and so does \<open>preRunE\<close>. Otherwise the
  command line goes through the shell tokenizer \<open>shlex.Split\<close>; its first token is the
  executable path and the tokens after it are the arguments (a tokenizer error is returned
  wrapped, and a command line without tokens leaves the path empty). Whenever \<open>preRunE\<close>
  succeeds, the function to run has that path and those arguments.
\<close>

theorem exec_function_spec:
  assumes "Image r = []" and "Exec r \<noteq> []"
  shows "(AsCurrentUser r \<or> Network r \<or> Mounts r \<noteq> [] \<or> Env r \<noteq> [] \<longrightarrow>
            getFunctionSpec w r =
              Inl (Errorf ''--mount, --as-current-user, --network and --env can only be used with container functions'')
            \<and> isl (preRunE w r args d))
       \<and> (\<not> AsCurrentUser r \<and> \<not> Network r \<and> Mounts r = [] \<and> Env r = [] \<longrightarrow>
            getFunctionSpec w r =
              (case shlexSplit w (Exec r) of
                 Inl e \<Rightarrow> Inl (ExecCommandError (Exec r) e)
               | Inr [] \<Rightarrow> Inr (\<lparr>Container_Image = [], Exec_Path = []\<rparr>, [])
               | Inr (path # rest) \<Rightarrow> Inr (\<lparr>Container_Image = [], Exec_Path = path\<rparr>, rest)))
       \<and> (\<forall>r'. preRunE w r args d = Inr r' \<longrightarrow>
            (\<exists>tokens. shlexSplit w (Exec r) = Inr tokens
              \<and> RunFns_Function (RunFns r') =
                  Some \<lparr>Container_Image = [],
                        Exec_Path = (case tokens of [] \<Rightarrow> [] | path # rest \<Rightarrow> path)\<rparr>
              \<and> RunFns_ExecArgs (RunFns r') = drop 1 tokens))"
proof (intro conjI impI allI)
  assume flags: "AsCurrentUser r \<or> Network r \<or> Mounts r \<noteq> [] \<or> Env r \<noteq> []"
  show "getFunctionSpec w r =
    Inl (Errorf ''--mount, --as-current-user, --network and --env can only be used with container functions'')"
    using getFunctionSpec_exec_flags [OF assms flags] .
  show "isl (preRunE w r args d)"
  proof (cases "preRunE w r args d")
    case (Inl e)
    then show ?thesis by simp
  next
    case (Inr r')
    from preRunE_exec_spec [OF assms(1) Inr] obtain items fs ea where
      "getFunctionSpec w (r\<lparr>dataItems := items\<rparr>) = Inr (fs, ea)" by blast
    moreover have "getFunctionSpec w (r\<lparr>dataItems := items\<rparr>) =
      Inl (Errorf ''--mount, --as-current-user, --network and --env can only be used with container functions'')"
      using getFunctionSpec_exec_flags [of "r\<lparr>dataItems := items\<rparr>" w] assms flags by simp
    ultimately show ?thesis by simp
  qed
next
  assume "\<not> AsCurrentUser r \<and> \<not> Network r \<and> Mounts r = [] \<and> Env r = []"
  then show "getFunctionSpec w r =
              (case shlexSplit w (Exec r) of
                 Inl e \<Rightarrow> Inl (ExecCommandError (Exec r) e)
               | Inr [] \<Rightarrow> Inr (\<lparr>Container_Image = [], Exec_Path = []\<rparr>, [])
               | Inr (path # rest) \<Rightarrow> Inr (\<lparr>Container_Image = [], Exec_Path = path\<rparr>, rest))"
    using getFunctionSpec_exec_split [OF assms] by simp
next
  fix r'
  assume ok: "preRunE w r args d = Inr r'"
  from preRunE_exec_spec [OF assms(1) ok] obtain items where
    spec: "getFunctionSpec w (r\<lparr>dataItems := items\<rparr>) =
           Inr (the (RunFns_Function (RunFns r')), RunFns_ExecArgs (RunFns r'))"
    and some: "RunFns_Function (RunFns r') \<noteq> None" by blast
  have noflags: "\<not> AsCurrentUser r \<and> \<not> Network r \<and> Mounts r = [] \<and> Env r = []"
  proof (rule ccontr)
    assume "\<not> ?thesis"
    then have "AsCurrentUser r \<or> Network r \<or> Mounts r \<noteq> [] \<or> Env r \<noteq> []" by blast
    with getFunctionSpec_exec_flags [of "r\<lparr>dataItems := items\<rparr>" w] assms spec
    show False by simp
  qed
  with getFunctionSpec_exec_split [of "r\<lparr>dataItems := items\<rparr>" w] assms spec some
  show "\<exists>tokens. shlexSplit w (Exec r) = Inr tokens
              \<and> RunFns_Function (RunFns r') =
                  Some \<lparr>Container_Image = [],
                        Exec_Path = (case tokens of [] \<Rightarrow> [] | path # rest \<Rightarrow> path)\<rparr>
              \<and> RunFns_ExecArgs (RunFns r') = drop 1 tokens"
    by (auto split: sum.splits list.splits)
qed

theorem exec_function_spec_witness:
  "Image (GetEvalFnRunner\<lparr>Exec := ''./my-fn --flag value''\<rparr>) = []
   \<and> Exec (GetEvalFnRunner\<lparr>Exec := ''./my-fn --flag value''\<rparr>) \<noteq> []
   \<and> getFunctionSpec okWorld (GetEvalFnRunner\<lparr>Exec := ''./my-fn --flag value''\<rparr>) =
       Inr (\<lparr>Container_Image = [], Exec_Path = ''./my-fn''\<rparr>, [''--flag'', ''value''])
   \<and> Network (GetEvalFnRunner\<lparr>Exec := ''./my-fn --flag value'', Network := True\<rparr>)
   \<and> getFunctionSpec okWorld
        (GetEvalFnRunner\<lparr>Exec := ''./my-fn --flag value'', Network := True\<rparr>) =
       Inl (Errorf ''--mount, --as-current-user, --network and --env can only be used with container functions'')
   \<and> isl (preRunE okWorld
        (GetEvalFnRunner\<lparr>Exec := ''./my-fn --flag value'', Network := True\<rparr>) [] (- 1))"
proof -
  let ?r = "GetEvalFnRunner\<lparr>Exec := ''./my-fn --flag value''\<rparr>"
  let ?n = "GetEvalFnRunner\<lparr>Exec := ''./my-fn --flag value'', Network := True\<rparr>"
  have r: "Image ?r = []" "Exec ?r \<noteq> []"
    and n: "Image ?n = []" "Exec ?n \<noteq> []"
    by (simp_all add: GetEvalFnRunner_def)
  have flags: "\<not> AsCurrentUser ?r \<and> \<not> Network ?r \<and> Mounts ?r = [] \<and> Env ?r = []"
    and net: "AsCurrentUser ?n \<or> Network ?n \<or> Mounts ?n \<noteq> [] \<or> Env ?n \<noteq> []"
    by (simp_all add: GetEvalFnRunner_def)
  have tokens: "shlexSplit okWorld (Exec ?r) = Inr [''./my-fn'', ''--flag'', ''value'']"
    by (simp add: GetEvalFnRunner_def okWorld_def)
  from exec_function_spec [OF r, of okWorld "[]" "- 1"] flags tokens
  have 1: "getFunctionSpec okWorld ?r =
       Inr (\<lparr>Container_Image = [], Exec_Path = ''./my-fn''\<rparr>, [''--flag'', ''value''])"
    by simp
  from exec_function_spec [OF n, of okWorld "[]" "- 1"] net
  have 2: "getFunctionSpec okWorld ?n =
       Inl (Errorf ''--mount, --as-current-user, --network and --env can only be used with container functions'')
     \<and> isl (preRunE okWorld ?n [] (- 1))"
    by blast
  from r 1 2 net show ?thesis by simp
qed

subsection \<open>Container functions\<close>

text \<open>
  C7. For an invocation with \<open>--image\<close>: whenever \<open>preRunE\<close> succeeds, the image of the
  runner is the given one with the default prefix applied, that is, prefixed with the
  default registry path when it is unqualified and unchanged otherwise; this image has
  passed \<open>ValidateFunctionImageURL\<close> and is the container image of the function to run.
  Resolving a function whose image does not pass the validation fails with the error of
  the validation, and \<open>preRunE\<close> fails when the prefixed image does not pass it.
\<close>

theorem image_prefix_and_validation:
  assumes "Image r \<noteq> []"
  shows "(\<forall>r'. preRunE w r args d = Inr r' \<longrightarrow>
            Image r' = AddDefaultImagePathPrefix w (Image r)
          \<and> (isUnqualifiedImage w (Image r) \<longrightarrow> Image r' = defaultImagePathPrefix w @ Image r)
          \<and> (\<not> isUnqualifiedImage w (Image r) \<longrightarrow> Image r' = Image r)
          \<and> ValidateFunctionImageURL w (Image r') = None
          \<and> RunFns_Function (RunFns r') = Some \<lparr>Container_Image = Image r', Exec_Path = []\<rparr>)
       \<and> (\<forall>e. ValidateFunctionImageURL w (Image r) = Some e \<longrightarrow> getFunctionSpec w r = Inl e)
       \<and> (\<forall>e. ValidateFunctionImageURL w (AddDefaultImagePathPrefix w (Image r)) = Some e \<longrightarrow>
             isl (preRunE w r args d))"
proof (intro conjI allI impI)
  fix r'
  assume ok: "preRunE w r args d = Inr r'"
  note spec = preRunE_image_spec [OF assms ok]
  from spec show "Image r' = AddDefaultImagePathPrefix w (Image r)" by blast
  from spec show "ValidateFunctionImageURL w (Image r') = None" by blast
  from spec show "RunFns_Function (RunFns r') = Some \<lparr>Container_Image = Image r', Exec_Path = []\<rparr>"
    by blast
  {
    assume "isUnqualifiedImage w (Image r)"
    with spec show "Image r' = defaultImagePathPrefix w @ Image r"
      by (simp add: AddDefaultImagePathPrefix_def)
  }
  {
    assume "\<not> isUnqualifiedImage w (Image r)"
    with spec show "Image r' = Image r"
      by (simp add: AddDefaultImagePathPrefix_def)
  }
next
  fix e
  assume "ValidateFunctionImageURL w (Image r) = Some e"
  with getFunctionSpec_image [OF assms, of w] show "getFunctionSpec w r = Inl e" by simp
next
  fix e
  assume bad: "ValidateFunctionImageURL w (AddDefaultImagePathPrefix w (Image r)) = Some e"
  show "isl (preRunE w r args d)"
  proof (cases "preRunE w r args d")
    case (Inl x)
    then show ?thesis by simp
  next
    case (Inr r')
    from preRunE_image_spec [OF assms Inr]
    have "ValidateFunctionImageURL w (AddDefaultImagePathPrefix w (Image r)) = None" by metis
    with bad show ?thesis by simp
  qed
qed

theorem image_prefix_and_validation_witness:
  "Image (GetEvalFnRunner\<lparr>Image := ''set-namespace:v0.1''\<rparr>) \<noteq> []
   \<and> isUnqualifiedImage okWorld ''set-namespace:v0.1''
   \<and> \<not> isl (preRunE okWorld (GetEvalFnRunner\<lparr>Image := ''set-namespace:v0.1''\<rparr>) [] (- 1))
   \<and> Image (projr (preRunE okWorld (GetEvalFnRunner\<lparr>Image := ''set-namespace:v0.1''\<rparr>) [] (- 1))) =
       ''gcr.io/kpt-fn/set-namespace:v0.1''
   \<and> ValidateFunctionImageURL (okWorld\<lparr>ValidateFunctionImageURL := (\<lambda>img. Some (External ''invalid image''))\<rparr>)
         ''set-namespace:v0.1'' = Some (External ''invalid image'')
   \<and> getFunctionSpec (okWorld\<lparr>ValidateFunctionImageURL := (\<lambda>img. Some (External ''invalid image''))\<rparr>)
         (GetEvalFnRunner\<lparr>Image := ''set-namespace:v0.1''\<rparr>) = Inl (External ''invalid image'')"
proof -
  let ?r = "GetEvalFnRunner\<lparr>Image := ''set-namespace:v0.1''\<rparr>"
  let ?bad = "okWorld\<lparr>ValidateFunctionImageURL := (\<lambda>img. Some (External ''invalid image''))\<rparr>"
  have img: "Image ?r \<noteq> []" "Image ?r = ''set-namespace:v0.1''"
    by (simp_all add: GetEvalFnRunner_def)
  have unq: "isUnqualifiedImage okWorld ''set-namespace:v0.1''"
    and pre: "defaultImagePathPrefix okWorld = ''gcr.io/kpt-fn/''"
    by (simp_all add: okWorld_def)
  have run: "\<not> isl (preRunE okWorld ?r [] (- 1))"
    by (simp add: preRunE_eval)
  then have ok: "preRunE okWorld ?r [] (- 1) = Inr (projr (preRunE okWorld ?r [] (- 1)))"
    by (cases "preRunE okWorld ?r [] (- 1)") simp_all
  from image_prefix_and_validation [OF img(1), of okWorld "[]" "- 1"] ok unq
  have "Image (projr (preRunE okWorld ?r [] (- 1))) = defaultImagePathPrefix okWorld @ Image ?r"
    unfolding img(2) by blast
  then have 1: "Image (projr (preRunE okWorld ?r [] (- 1))) = ''gcr.io/kpt-fn/set-namespace:v0.1''"
    by (simp add: pre img(2))
  have v: "ValidateFunctionImageURL ?bad (Image ?r) = Some (External ''invalid image'')"
    by simp
  from image_prefix_and_validation [OF img(1), of ?bad "[]" "- 1"] v
  have 2: "getFunctionSpec ?bad ?r = Inl (External ''invalid image'')"
    by blast
  from img(1) unq run 1 2 show ?thesis by simp
qed

subsection \<open>Positional arguments\<close>

lemma preRunE_positional:
  assumes "splitAtDash args d = Inr (items, args1)" and "preRunE w r args d = Inr r'"
  shows "length args1 \<le> 1
    \<and> (items = [] \<or> FnConfigPath r = [])
    \<and> FromStdin r' = (if args1 = [''-''] then True else FromStdin r)
    \<and> RunFns_Input (RunFns r') = (if args1 = [''-''] then StdinReader else NoReader)
    \<and> RunFns_Output (RunFns r') =
         (if args1 = [''-''] \<or> Dest r \<noteq> [] then OutContentWriter else NoWriter)
    \<and> (if args1 = [''-''] \<or> args1 = [[]] then Inr []
        else if args1 = [] then ResolveSymlink w ''.''
        else ResolveSymlink w (hd args1)) = Inr (RunFns_Path (RunFns r'))"
proof -
  from assms(2) obtain r1 items' args2 where
    pc: "preflightChecks w r = Inr r1" and pa: "positionalArgs r1 args d = Inr (items', args2)"
    and b: "buildRunFns w r1 items' args2 = Inr r'"
    by (rule preRunE_Inr)
  from preflightChecks_Inr [OF pc]
  have r1: "FnConfigPath r1 = FnConfigPath r" "FromStdin r1 = FromStdin r" "Dest r1 = Dest r"
    by (auto split: if_splits)
  from positionalArgs_Inr [OF pa] assms(1)
  have a: "items' = items" "length args1 \<le> 1" "args2 = (if args1 = [] then [''.''] else args1)"
    "items = [] \<or> FnConfigPath r1 = []" by auto
  from buildRunFns_Inr [OF b] have
    f: "FromStdin r' = (if hd args2 = ''-'' then True else FromStdin r1)"
      "RunFns_Input (RunFns r') = (if hd args2 = ''-'' then StdinReader else NoReader)"
      "RunFns_Output (RunFns r') =
          (if hd args2 = ''-'' \<or> Dest r1 \<noteq> [] then OutContentWriter else NoWriter)"
      "(if hd args2 = ''-'' \<or> length args2 \<noteq> 1 \<or> hd args2 = [] then Inr []
        else ResolveSymlink w (hd args2)) = Inr (RunFns_Path (RunFns r'))"
    by blast+
  show ?thesis
  proof (cases args1)
    case Nil
    with a(3) have "args2 = [''.'']" by simp
    with f a(2,4) r1 Nil show ?thesis by simp
  next
    case (Cons x xs)
    with a(2) have xs: "xs = []" by simp
    with Cons a(3) have "args2 = [x]" by simp
    with f a(2,4) r1 Cons xs show ?thesis by auto
  qed
qed




subsection \<open>Function config: path or arguments\<close>

lemma SplitN2_cases:
  "SplitN2 s c = [s] \<or> (\<exists>k v. SplitN2 s c = [k, v])"
  by (simp add: SplitN2_def)

lemma setDataItems_newFunctionData:
  "setDataItems w i items kind d = Inr x \<Longrightarrow> \<exists>data. newFunctionData i items d' = Inr data"
proof (induction items arbitrary: i kind d d' x)
  case Nil
  then show ?case by simp
next
  case (Cons s ss)
  from SplitN2_cases [of s "CHR ''=''"] show ?case
  proof
    assume bare: "SplitN2 s CHR ''='' = [s]"
    show ?thesis
    proof (cases "i = 0")
      case True
      with Cons.prems bare have "setDataItems w (Suc 0) ss s d = Inr x" by simp
      from Cons.IH [OF this, of d'] True bare show ?thesis by simp
    next
      case False
      with Cons.prems bare show ?thesis by simp
    qed
  next
    assume "\<exists>k v. SplitN2 s CHR ''='' = [k, v]"
    then obtain k v where kv: "SplitN2 s CHR ''='' = [k, v]" by blast
    with Cons.prems obtain dn where "setDataItems w (Suc i) ss kind dn = Inr x"
      by (cases "SetField w k (Scalar v) d") auto
    from Cons.IH [OF this, of "AList.update k v d'"] kv show ?thesis by simp
  qed
qed

lemma NewFunction_config:
  assumes "NewFunction w r = Inr f"
  shows "(Function_ConfigPath f = [] \<or> Function_ConfigMap f = None)
       \<and> (FnConfigPath r \<noteq> [] \<longrightarrow>
            Function_ConfigPath f = RelativePath w (FnConfigPath r) \<and> Function_ConfigMap f = None)
       \<and> (FnConfigPath r = [] \<and> dataItems r = [] \<longrightarrow>
            Function_ConfigPath f = [] \<and> Function_ConfigMap f = None)"
  using assms
  by (cases "Image r = []"; cases "FnConfigPath r = []"; cases "Selector_IsEmpty (Selector r)")
     (auto simp: NewFunction_def Let_def split: sum.splits if_splits)

lemma NewFunction_total:
  assumes "FnConfigPath r \<noteq> [] \<or> newFunctionData 0 (dataItems r) [] = Inr data"
  shows "\<exists>f. NewFunction w r = Inr f"
  using assms
  by (cases "FnConfigPath r = []") (auto simp: NewFunction_def Let_def)

lemma preRunE_then_NewFunction:
  assumes "preRunE w r args d = Inr r'"
  shows "\<exists>f. NewFunction w r' = Inr f"
proof -
  from assms obtain r1 items args2 where
    pc: "preflightChecks w r = Inr r1" and b: "buildRunFns w r1 items args2 = Inr r'"
    by (rule preRunE_Inr)
  from preflightChecks_Inr [OF pc]
  have ne: "Image r1 \<noteq> [] \<or> Exec r1 \<noteq> []"
    by (auto simp: AddDefaultImagePathPrefix_nonempty split: if_splits)
  from buildRunFns_Inr [OF b] obtain fnConfig where
    cfg: "getCLIFunctionConfig w r1 items = Inr fnConfig" and di: "dataItems r' = items"
    by blast
  from cfg ne obtain x where "setDataItems w 0 items ''ConfigMap'' (MapNode []) = Inr x"
    by (cases "setDataItems w 0 items ''ConfigMap'' (MapNode [])")
      (auto simp: getCLIFunctionConfig_def)
  from setDataItems_newFunctionData [OF this, of "[]"] obtain data where
    "newFunctionData 0 items [] = Inr data" by blast
  with di NewFunction_total [of r' data w] show ?thesis by simp
qed

lemma preRunE_args_with_config:
  assumes "splitAtDash args d = Inr (items, args1)" and "items \<noteq> []" and "FnConfigPath r \<noteq> []"
  shows "isl (preRunE w r args d)"
    and "environmentReady w r \<Longrightarrow> Image r \<noteq> [] \<or> Exec r \<noteq> [] \<Longrightarrow> length args1 \<le> 1 \<Longrightarrow>
      preRunE w r args d =
        Inl (Errorf ''function arguments can only be specified without function config file'')"
proof -
  show "isl (preRunE w r args d)"
  proof (cases "preRunE w r args d")
    case (Inl e)
    then show ?thesis by simp
  next
    case (Inr r')
    from preRunE_positional [OF assms(1) Inr] assms(2,3) show ?thesis by simp
  qed
next
  assume ready: "environmentReady w r" and fn: "Image r \<noteq> [] \<or> Exec r \<noteq> []"
    and len: "length args1 \<le> 1"
  have "\<And>r1. FnConfigPath r1 = FnConfigPath r \<Longrightarrow> positionalArgs r1 args d =
      Inl (Errorf ''function arguments can only be specified without function config file'')"
    using assms len by (cases "args1 = []") (auto simp: positionalArgs_def)
  with preflightChecks_ready [OF ready fn] show "preRunE w r args d =
      Inl (Errorf ''function arguments can only be specified without function config file'')"
    by (cases "Image r = []") (simp_all add: preRunE_def)
qed

text \<open>
  C6. An invocation with function arguments after \<open>--\<close> and with \<open>--fn-config\<close> never
  passes \<open>preRunE\<close>; once the environment checks are passed, a function is given and at
  most one positional argument is there, the error is "function arguments can only be
  specified without function config file". The \<open>Function\<close> that \<open>NewFunction\<close> builds never
  has both a \<open>ConfigPath\<close> and a \<open>ConfigMap\<close>: with a config file it has the relative path
  of the file and no map, and with neither a config file nor arguments it has neither.
  After a successful \<open>preRunE\<close>, \<open>NewFunction\<close> returns a function (it does not panic).
\<close>

theorem configPath_or_configMap:
  "(\<forall>items args1. splitAtDash args d = Inr (items, args1) \<and> items \<noteq> [] \<and> FnConfigPath r \<noteq> [] \<longrightarrow>
       isl (preRunE w r args d)
     \<and> (environmentReady w r \<and> (Image r \<noteq> [] \<or> Exec r \<noteq> []) \<and> length args1 \<le> 1 \<longrightarrow>
          preRunE w r args d =
            Inl (Errorf ''function arguments can only be specified without function config file'')))
   \<and> (\<forall>f. NewFunction w r = Inr f \<longrightarrow>
        (Function_ConfigPath f = [] \<or> Function_ConfigMap f = None)
      \<and> (FnConfigPath r \<noteq> [] \<longrightarrow>
           Function_ConfigPath f = RelativePath w (FnConfigPath r) \<and> Function_ConfigMap f = None)
      \<and> (FnConfigPath r = [] \<and> dataItems r = [] \<longrightarrow>
           Function_ConfigPath f = [] \<and> Function_ConfigMap f = None))
   \<and> (\<forall>r'. preRunE w r args d = Inr r' \<longrightarrow> (\<exists>f. NewFunction w r' = Inr f))"
  using preRunE_args_with_config [of args d _ _ r w] NewFunction_config [of w r]
    preRunE_then_NewFunction [of w r args d]
  by blast

theorem configPath_or_configMap_witness:
  "splitAtDash [''pkg'', ''namespace=staging''] 1 = Inr ([''namespace=staging''], [''pkg''])
   \<and> FnConfigPath (GetEvalFnRunner\<lparr>Image := ''set-namespace:v0.1'', FnConfigPath := ''fn-config.yaml''\<rparr>) \<noteq> []
   \<and> preRunE okWorld
        (GetEvalFnRunner\<lparr>Image := ''set-namespace:v0.1'', FnConfigPath := ''fn-config.yaml''\<rparr>)
        [''pkg'', ''namespace=staging''] 1 =
       Inl (Errorf ''function arguments can only be specified without function config file'')
   \<and> NewFunction okWorld
        (GetEvalFnRunner\<lparr>Image := ''set-namespace:v0.1'', FnConfigPath := ''fn-config.yaml''\<rparr>) =
       Inr \<lparr>Function_Name = ''set-namespace:v0.1'', Function_Image = ''set-namespace:v0.1'',
            Function_Exec = [], Function_ConfigPath = ''fn-config.yaml'',
            Function_ConfigMap = None, Function_Selectors = []\<rparr>
   \<and> NewFunction okWorld
        (GetEvalFnRunner\<lparr>Image := ''set-namespace:v0.1'', dataItems := [''namespace=staging'']\<rparr>) =
       Inr \<lparr>Function_Name = ''set-namespace:v0.1'', Function_Image = ''set-namespace:v0.1'',
            Function_Exec = [], Function_ConfigPath = [],
            Function_ConfigMap = Some [(''namespace'', ''staging'')], Function_Selectors = []\<rparr>"
proof -
  let ?r = "GetEvalFnRunner\<lparr>Image := ''set-namespace:v0.1'', FnConfigPath := ''fn-config.yaml''\<rparr>"
  let ?m = "GetEvalFnRunner\<lparr>Image := ''set-namespace:v0.1'', dataItems := [''namespace=staging'']\<rparr>"
  have s: "splitAtDash [''pkg'', ''namespace=staging''] 1 = Inr ([''namespace=staging''], [''pkg''])"
    by (simp add: splitAtDash_def)
  have c: "FnConfigPath ?r \<noteq> []"
    by (simp add: GetEvalFnRunner_def)
  have ready: "environmentReady okWorld ?r \<and> (Image ?r \<noteq> [] \<or> Exec ?r \<noteq> [])"
    by (simp add: environmentReady_def okWorld_def GetEvalFnRunner_def)
  from configPath_or_configMap [of "[''pkg'', ''namespace=staging'']" 1 ?r okWorld] s c ready
  have 1: "preRunE okWorld ?r [''pkg'', ''namespace=staging''] 1 =
       Inl (Errorf ''function arguments can only be specified without function config file'')"
    by simp
  have 2: "NewFunction okWorld ?r =
       Inr \<lparr>Function_Name = ''set-namespace:v0.1'', Function_Image = ''set-namespace:v0.1'',
            Function_Exec = [], Function_ConfigPath = ''fn-config.yaml'',
            Function_ConfigMap = None, Function_Selectors = []\<rparr>"
    by (simp add: NewFunction_def GetEvalFnRunner_def okWorld_def Selector_IsEmpty_def)
  have 3: "NewFunction okWorld ?m =
       Inr \<lparr>Function_Name = ''set-namespace:v0.1'', Function_Image = ''set-namespace:v0.1'',
            Function_Exec = [], Function_ConfigPath = [],
            Function_ConfigMap = Some [(''namespace'', ''staging'')], Function_Selectors = []\<rparr>"
    by (simp add: NewFunction_def GetEvalFnRunner_def okWorld_def Selector_IsEmpty_def SplitN2_def)
  from s c 1 2 3 show ?thesis by simp
qed

subsection \<open>The function config made from the arguments\<close>

lemma SplitN2_pair:
  "CHR ''='' \<notin> set k \<Longrightarrow> SplitN2 (k @ ''='' @ v) CHR ''='' = [k, v]"
proof -
  assume k: "CHR ''='' \<notin> set k"
  then have "takeWhile (\<lambda>x. x \<noteq> CHR ''='') (k @ ''='' @ v) = k"
    and "dropWhile (\<lambda>x. x \<noteq> CHR ''='') (k @ ''='' @ v) = ''='' @ v"
    by (induction k) auto
  then show ?thesis by (simp add: SplitN2_def)
qed

lemma SplitN2_bare:
  "CHR ''='' \<notin> set s \<Longrightarrow> SplitN2 s CHR ''='' = [s]"
  by (simp add: SplitN2_def)

lemma setDataItems_pairs:
  assumes "\<forall>(k, v) \<in> set kvs. CHR ''='' \<notin> set k"
    and "\<forall>name \<in> fst ` set kvs. \<forall>value fs.
           SetField w name value (MapNode fs) = Inr (MapNode (AList.update name value fs))"
  shows "setDataItems w i (map (\<lambda>(k, v). k @ ''='' @ v) kvs @ rest) kind (MapNode fs) =
     setDataItems w (i + length kvs) rest kind
       (MapNode (fold (\<lambda>(k, v). AList.update k (Scalar v)) kvs fs))"
  using assms
proof (induction kvs arbitrary: i fs)
  case Nil
  then show ?case by simp
next
  case (Cons kv kvs)
  obtain k v where kv: "kv = (k, v)" by (cases kv)
  with Cons.prems have k: "CHR ''='' \<notin> set k" by simp
  from Cons.prems kv have set: "SetField w k (Scalar v) (MapNode fs) =
      Inr (MapNode (AList.update k (Scalar v) fs))" by simp
  from Cons.prems have rest: "\<forall>(k, v) \<in> set kvs. CHR ''='' \<notin> set k"
    and lib: "\<forall>name \<in> fst ` set kvs. \<forall>value fs.
           SetField w name value (MapNode fs) = Inr (MapNode (AList.update name value fs))"
    by simp_all
  show ?case
    using Cons.IH [OF rest lib, of "Suc i" "AList.update k (Scalar v) fs"]
      SplitN2_pair [OF k, of v] set
    by (simp add: kv)
qed

lemma setDataItems_bare_later:
  "0 < i \<Longrightarrow> CHR ''='' \<notin> set s \<Longrightarrow>
   setDataItems w i (s # tail) kind d = Inl (Errorf ''args must have keys and values separated by ='')"
  by (simp add: SplitN2_def)

lemma setDataItems_isl:
  "0 < i \<Longrightarrow> s \<in> set items \<Longrightarrow> CHR ''='' \<notin> set s \<Longrightarrow> isl (setDataItems w i items kind d)"
proof (induction items arbitrary: i kind d)
  case Nil
  then show ?case by simp
next
  case (Cons x xs)
  show ?case
  proof (cases "CHR ''='' \<in> set x")
    case True
    then have sp: "SplitN2 x CHR ''='' =
        [takeWhile (\<lambda>c. c \<noteq> CHR ''='') x, tl (dropWhile (\<lambda>c. c \<noteq> CHR ''='') x)]"
      by (simp add: SplitN2_def)
    from True Cons.prems have "s \<in> set xs" by auto
    with Cons.IH [of "Suc i"] Cons.prems
    have "\<And>kind d. isl (setDataItems w (Suc i) xs kind d)" by simp
    then show ?thesis
      using sp
      by (cases "SetField w (takeWhile (\<lambda>c. c \<noteq> CHR ''='') x)
            (Scalar (tl (dropWhile (\<lambda>c. c \<noteq> CHR ''='') x))) d") simp_all
  next
    case False
    then show ?thesis using Cons.prems by (simp add: SplitN2_def)
  qed
qed

lemma map_of_fold_update:
  "map_of (fold (\<lambda>(k, v). AList.update k (f v)) kvs d) =
   map_of (rev (map (\<lambda>(k, v). (k, f v)) kvs) @ d)"
proof (induction kvs arbitrary: d)
  case Nil
  then show ?case by simp
next
  case (Cons kv kvs)
  obtain k v where kv: "kv = (k, v)" by (cases kv)
  show ?case
    by (simp add: kv Cons.IH update_conv' map_add_def fun_eq_iff split: option.splits)
qed

lemma update_fresh:
  "k \<notin> fst ` set al \<Longrightarrow> AList.update k v al = al @ [(k, v)]"
  by (induction al) auto

lemma fold_update_distinct:
  "distinct (map fst kvs) \<Longrightarrow> fst ` set kvs \<inter> fst ` set d = {} \<Longrightarrow>
   fold (\<lambda>(k, v). AList.update k (f v)) kvs d = d @ map (\<lambda>(k, v). (k, f v)) kvs"
proof (induction kvs arbitrary: d)
  case Nil
  then show ?case by simp
next
  case (Cons kv kvs)
  obtain k v where kv: "kv = (k, v)" by (cases kv)
  from Cons.prems kv have fresh: "k \<notin> fst ` set d" by auto
  from Cons.prems kv have "distinct (map fst kvs)"
    and "fst ` set kvs \<inter> fst ` set (d @ [(k, f v)]) = {}" by auto
  from Cons.IH [OF this] fresh show ?case
    by (simp add: kv update_fresh)
qed

lemma getCLIFunctionConfig_of_data:
  assumes "Image r \<noteq> [] \<or> Exec r \<noteq> []"
    and "setDataItems w 0 items ''ConfigMap'' (MapNode []) = Inr (kind, MapNode fs)"
    and "\<forall>name \<in> {''kind'', ''apiVersion''}. \<forall>value fs.
           SetField w name value (MapNode fs) = Inr (MapNode (AList.update name value fs))"
  shows "getCLIFunctionConfig w r items =
     Inr (Some (MapNode
       [(''metadata'', MapNode [(''name'', Scalar ''function-input'')]),
        (''data'', MapNode fs),
        (''kind'', Scalar kind),
        (''apiVersion'', Scalar ''v1'')]))"
  using assms by (auto simp: getCLIFunctionConfig_def)

lemma getCLIFunctionConfig_of_error:
  assumes "Image r \<noteq> [] \<or> Exec r \<noteq> []"
    and "setDataItems w 0 items ''ConfigMap'' (MapNode []) = Inl e"
  shows "getCLIFunctionConfig w r items = Inl e"
  using assms by (auto simp: getCLIFunctionConfig_def)

lemma getCLIFunctionConfig_isl:
  assumes "Image r \<noteq> [] \<or> Exec r \<noteq> []" and "s \<in> set rest" and "CHR ''='' \<notin> set s"
  shows "isl (getCLIFunctionConfig w r (first # rest))"
proof -
  have later: "\<And>kind d. isl (setDataItems w (Suc 0) rest kind d)"
    using setDataItems_isl [of "Suc 0" s rest w] assms(2,3) by simp
  have "isl (setDataItems w 0 (first # rest) ''ConfigMap'' (MapNode []))"
  proof (cases "CHR ''='' \<in> set first")
    case True
    then have sp: "SplitN2 first CHR ''='' =
        [takeWhile (\<lambda>c. c \<noteq> CHR ''='') first, tl (dropWhile (\<lambda>c. c \<noteq> CHR ''='') first)]"
      by (simp add: SplitN2_def)
    show ?thesis
      using sp later
      by (cases "SetField w (takeWhile (\<lambda>c. c \<noteq> CHR ''='') first)
            (Scalar (tl (dropWhile (\<lambda>c. c \<noteq> CHR ''='') first))) (MapNode [])") simp_all
  next
    case False
    then show ?thesis using later by (simp add: SplitN2_def)
  qed
  then obtain e where "setDataItems w 0 (first # rest) ''ConfigMap'' (MapNode []) = Inl e"
    by (cases "setDataItems w 0 (first # rest) ''ConfigMap'' (MapNode [])") auto
  from getCLIFunctionConfig_of_error [OF assms(1) this] show ?thesis by simp
qed

text \<open>
  C3, as the code has it. Let the library set the fields named by the keys, \<open>kind\<close> and
  \<open>apiVersion\<close>: on a mapping, \<open>SetField\<close> replaces the value of a field that exists and
  appends a new field otherwise. With a function given and every argument after \<open>--\<close> of
  the form \<open>key=value\<close> (the key without \<open>=\<close>), the function config is the mapping with
  \<open>metadata.name: function-input\<close>, \<open>data\<close>, \<open>kind: ConfigMap\<close> and \<open>apiVersion: v1\<close>, where
  \<open>data\<close> is the result of setting each key to its value in the order of the arguments:
  every key is there with the value of its last pair, and when no key is repeated \<open>data\<close>
  is exactly the list of the pairs. A first argument without \<open>=\<close> becomes the kind and is
  no entry of \<open>data\<close>. An argument without \<open>=\<close> at any later position makes the function
  fail, whatever the library does, and the error is "args must have keys and values
  separated by =" when such pairs (after a kind or not) come before it. When the library
  refuses to set the field of the next pair, its error is returned.
\<close>

theorem getCLIFunctionConfig_configmap:
  assumes "Image r \<noteq> [] \<or> Exec r \<noteq> []" and "\<forall>(k, v) \<in> set kvs. CHR ''='' \<notin> set k"
    and "\<forall>name \<in> fst ` set kvs \<union> {''kind'', ''apiVersion''}. \<forall>value fs.
           SetField w name value (MapNode fs) = Inr (MapNode (AList.update name value fs))"
  shows "getCLIFunctionConfig w r (map (\<lambda>(k, v). k @ ''='' @ v) kvs) =
           Inr (Some (MapNode
             [(''metadata'', MapNode [(''name'', Scalar ''function-input'')]),
              (''data'', MapNode (fold (\<lambda>(k, v). AList.update k (Scalar v)) kvs [])),
              (''kind'', Scalar ''ConfigMap''),
              (''apiVersion'', Scalar ''v1'')]))
       \<and> (\<forall>b. CHR ''='' \<notin> set b \<longrightarrow>
            getCLIFunctionConfig w r (b # map (\<lambda>(k, v). k @ ''='' @ v) kvs) =
              Inr (Some (MapNode
                [(''metadata'', MapNode [(''name'', Scalar ''function-input'')]),
                 (''data'', MapNode (fold (\<lambda>(k, v). AList.update k (Scalar v)) kvs [])),
                 (''kind'', Scalar b),
                 (''apiVersion'', Scalar ''v1'')])))
       \<and> map_of (fold (\<lambda>(k, v). AList.update k (Scalar v)) kvs []) =
           map_of (rev (map (\<lambda>(k, v). (k, Scalar v)) kvs))
       \<and> (distinct (map fst kvs) \<longrightarrow>
            fold (\<lambda>(k, v). AList.update k (Scalar v)) kvs [] =
              map (\<lambda>(k, v). (k, Scalar v)) kvs)
       \<and> (\<forall>first rest s. s \<in> set rest \<and> CHR ''='' \<notin> set s \<longrightarrow>
            isl (getCLIFunctionConfig w r (first # rest)))
       \<and> (\<forall>b s tail. CHR ''='' \<notin> set b \<and> CHR ''='' \<notin> set s \<longrightarrow>
            getCLIFunctionConfig w r (b # map (\<lambda>(k, v). k @ ''='' @ v) kvs @ s # tail) =
              Inl (Errorf ''args must have keys and values separated by =''))
       \<and> (\<forall>s tail. kvs \<noteq> [] \<and> CHR ''='' \<notin> set s \<longrightarrow>
            getCLIFunctionConfig w r (map (\<lambda>(k, v). k @ ''='' @ v) kvs @ s # tail) =
              Inl (Errorf ''args must have keys and values separated by =''))
       \<and> (\<forall>k v e tail. CHR ''='' \<notin> set k \<and>
              SetField w k (Scalar v)
                (MapNode (fold (\<lambda>(k, v). AList.update k (Scalar v)) kvs [])) = Inl e \<longrightarrow>
            getCLIFunctionConfig w r
              (map (\<lambda>(k, v). k @ ''='' @ v) kvs @ (k @ ''='' @ v) # tail) = Inl e)
       \<and> (\<forall>b k v e tail. CHR ''='' \<notin> set b \<and> CHR ''='' \<notin> set k \<and>
              SetField w k (Scalar v)
                (MapNode (fold (\<lambda>(k, v). AList.update k (Scalar v)) kvs [])) = Inl e \<longrightarrow>
            getCLIFunctionConfig w r
              (b # map (\<lambda>(k, v). k @ ''='' @ v) kvs @ (k @ ''='' @ v) # tail) = Inl e)"
proof -
  from assms(3) have lib: "\<forall>name \<in> fst ` set kvs. \<forall>value fs.
           SetField w name value (MapNode fs) = Inr (MapNode (AList.update name value fs))"
    and top: "\<forall>name \<in> {''kind'', ''apiVersion''}. \<forall>value fs.
           SetField w name value (MapNode fs) = Inr (MapNode (AList.update name value fs))"
    by simp_all
  note pairs = setDataItems_pairs [OF assms(2) lib]
  have 1: "getCLIFunctionConfig w r (map (\<lambda>(k, v). k @ ''='' @ v) kvs) =
           Inr (Some (MapNode
             [(''metadata'', MapNode [(''name'', Scalar ''function-input'')]),
              (''data'', MapNode (fold (\<lambda>(k, v). AList.update k (Scalar v)) kvs [])),
              (''kind'', Scalar ''ConfigMap''),
              (''apiVersion'', Scalar ''v1'')]))"
    using pairs [of 0 "[]" "''ConfigMap''" "[]"]
    by (intro getCLIFunctionConfig_of_data [OF assms(1) _ top]) simp
  have 2: "getCLIFunctionConfig w r (b # map (\<lambda>(k, v). k @ ''='' @ v) kvs) =
              Inr (Some (MapNode
                [(''metadata'', MapNode [(''name'', Scalar ''function-input'')]),
                 (''data'', MapNode (fold (\<lambda>(k, v). AList.update k (Scalar v)) kvs [])),
                 (''kind'', Scalar b),
                 (''apiVersion'', Scalar ''v1'')]))" if "CHR ''='' \<notin> set b" for b
    using pairs [of "Suc 0" "[]" b "[]"] SplitN2_bare [OF that]
    by (intro getCLIFunctionConfig_of_data [OF assms(1) _ top]) simp
  have 5: "isl (getCLIFunctionConfig w r (first # rest))"
    if "s \<in> set rest" "CHR ''='' \<notin> set s" for first rest s
    using getCLIFunctionConfig_isl [OF assms(1) that] .
  have 6: "getCLIFunctionConfig w r (b # map (\<lambda>(k, v). k @ ''='' @ v) kvs @ s # tail) =
              Inl (Errorf ''args must have keys and values separated by ='')"
    if "CHR ''='' \<notin> set b" "CHR ''='' \<notin> set s" for b s tail
    using pairs [of "Suc 0" "s # tail" b "[]"] SplitN2_bare [OF that(1)]
      setDataItems_bare_later [OF _ that(2), of "Suc (length kvs)" w tail]
    by (intro getCLIFunctionConfig_of_error [OF assms(1)]) simp
  have 7: "getCLIFunctionConfig w r (map (\<lambda>(k, v). k @ ''='' @ v) kvs @ s # tail) =
              Inl (Errorf ''args must have keys and values separated by ='')"
    if "kvs \<noteq> []" "CHR ''='' \<notin> set s" for s tail
    using pairs [of 0 "s # tail" "''ConfigMap''" "[]"] that(1)
      setDataItems_bare_later [OF _ that(2), of "length kvs" w tail]
    by (intro getCLIFunctionConfig_of_error [OF assms(1)]) simp
  have 8: "getCLIFunctionConfig w r
              (map (\<lambda>(k, v). k @ ''='' @ v) kvs @ (k @ ''='' @ v) # tail) = Inl e"
    if "CHR ''='' \<notin> set k"
      "SetField w k (Scalar v)
         (MapNode (fold (\<lambda>(k, v). AList.update k (Scalar v)) kvs [])) = Inl e" for k v e tail
    using pairs [of 0 "(k @ ''='' @ v) # tail" "''ConfigMap''" "[]"]
      SplitN2_pair [OF that(1), of v] that(2)
    by (intro getCLIFunctionConfig_of_error [OF assms(1)]) simp
  have 9: "getCLIFunctionConfig w r
              (b # map (\<lambda>(k, v). k @ ''='' @ v) kvs @ (k @ ''='' @ v) # tail) = Inl e"
    if "CHR ''='' \<notin> set b" "CHR ''='' \<notin> set k"
      "SetField w k (Scalar v)
         (MapNode (fold (\<lambda>(k, v). AList.update k (Scalar v)) kvs [])) = Inl e" for b k v e tail
    using pairs [of "Suc 0" "(k @ ''='' @ v) # tail" b "[]"] SplitN2_bare [OF that(1)]
      SplitN2_pair [OF that(2), of v] that(3)
    by (intro getCLIFunctionConfig_of_error [OF assms(1)]) simp
  from 1 2 5 6 7 8 9 map_of_fold_update [of Scalar kvs "[]"]
    fold_update_distinct [of kvs "[]" Scalar]
  show ?thesis by (intro conjI allI impI; (elim conjE)?; simp)
qed

theorem getCLIFunctionConfig_configmap_witness:
  "Image (GetEvalFnRunner\<lparr>Image := ''set-namespace:v0.1''\<rparr>) \<noteq> []
   \<and> CHR ''='' \<notin> set ''namespace'' \<and> CHR ''='' \<notin> set ''env''
   \<and> SetField okWorld ''namespace'' (Scalar ''staging'') (MapNode []) =
       Inr (MapNode (AList.update ''namespace'' (Scalar ''staging'') []))
   \<and> distinct (map fst [(''namespace'', ''staging''), (''env'', ''a=b'')])
   \<and> getCLIFunctionConfig okWorld (GetEvalFnRunner\<lparr>Image := ''set-namespace:v0.1''\<rparr>)
        [''namespace=staging'', ''env=a=b''] =
       Inr (Some (MapNode
         [(''metadata'', MapNode [(''name'', Scalar ''function-input'')]),
          (''data'', MapNode [(''namespace'', Scalar ''staging''), (''env'', Scalar ''a=b'')]),
          (''kind'', Scalar ''ConfigMap''),
          (''apiVersion'', Scalar ''v1'')]))
   \<and> getCLIFunctionConfig okWorld (GetEvalFnRunner\<lparr>Image := ''set-namespace:v0.1''\<rparr>)
        [''SetNamespace'', ''namespace=staging'', ''env=a=b''] =
       Inr (Some (MapNode
         [(''metadata'', MapNode [(''name'', Scalar ''function-input'')]),
          (''data'', MapNode [(''namespace'', Scalar ''staging''), (''env'', Scalar ''a=b'')]),
          (''kind'', Scalar ''SetNamespace''),
          (''apiVersion'', Scalar ''v1'')]))
   \<and> getCLIFunctionConfig okWorld (GetEvalFnRunner\<lparr>Image := ''set-namespace:v0.1''\<rparr>)
        [''namespace=staging'', ''env=a=b'', ''staging''] =
       Inl (Errorf ''args must have keys and values separated by ='')
   \<and> SetField okWorld [] (Scalar ''staging'') (MapNode []) = Inl (External ''wrong Node Kind'')
   \<and> getCLIFunctionConfig okWorld (GetEvalFnRunner\<lparr>Image := ''set-namespace:v0.1''\<rparr>)
        [''=staging''] = Inl (External ''wrong Node Kind'')"
proof -
  let ?r = "GetEvalFnRunner\<lparr>Image := ''set-namespace:v0.1''\<rparr>"
  let ?kvs = "[(''namespace'', ''staging''), (''env'', ''a=b'')]"
  have h0: "Image ?r \<noteq> []" by (simp add: GetEvalFnRunner_def)
  then have h1: "Image ?r \<noteq> [] \<or> Exec ?r \<noteq> []" by simp
  have h2: "\<forall>(k, v) \<in> set ?kvs. CHR ''='' \<notin> set k" by simp
  have h3: "\<forall>name \<in> fst ` set ?kvs \<union> {''kind'', ''apiVersion''}. \<forall>value fs.
      SetField okWorld name value (MapNode fs) = Inr (MapNode (AList.update name value fs))"
    by (simp add: okWorld_def fieldSetter_def)
  have h4: "distinct (map fst ?kvs)" by simp
  have h5: "CHR ''='' \<notin> set ''SetNamespace''" by simp
  have h6: "?kvs \<noteq> [] \<and> CHR ''='' \<notin> set ''staging''" by simp
  have h7: "CHR ''='' \<notin> set [] \<and>
      SetField okWorld [] (Scalar ''staging'') (MapNode []) = Inl (External ''wrong Node Kind'')"
    by (simp add: okWorld_def fieldSetter_def)
  have h8: "SetField okWorld ''namespace'' (Scalar ''staging'') (MapNode []) =
       Inr (MapNode (AList.update ''namespace'' (Scalar ''staging'') []))"
    using h3 by simp
  note t = getCLIFunctionConfig_configmap [OF h1 h2 h3]
  from t h4 have d: "fold (\<lambda>(k, v). AList.update k (Scalar v)) ?kvs [] =
      map (\<lambda>(k, v). (k, Scalar v)) ?kvs" by blast
  from t have 1: "getCLIFunctionConfig okWorld ?r (map (\<lambda>(k, v). k @ ''='' @ v) ?kvs) =
           Inr (Some (MapNode
             [(''metadata'', MapNode [(''name'', Scalar ''function-input'')]),
              (''data'', MapNode (fold (\<lambda>(k, v). AList.update k (Scalar v)) ?kvs [])),
              (''kind'', Scalar ''ConfigMap''),
              (''apiVersion'', Scalar ''v1'')]))" by blast
  from t h5 have 2: "getCLIFunctionConfig okWorld ?r
           (''SetNamespace'' # map (\<lambda>(k, v). k @ ''='' @ v) ?kvs) =
           Inr (Some (MapNode
             [(''metadata'', MapNode [(''name'', Scalar ''function-input'')]),
              (''data'', MapNode (fold (\<lambda>(k, v). AList.update k (Scalar v)) ?kvs [])),
              (''kind'', Scalar ''SetNamespace''),
              (''apiVersion'', Scalar ''v1'')]))" by blast
  from t h6 have 3: "getCLIFunctionConfig okWorld ?r
           (map (\<lambda>(k, v). k @ ''='' @ v) ?kvs @ ''staging'' # []) =
       Inl (Errorf ''args must have keys and values separated by ='')" by blast
  have e1: "Image ?r \<noteq> [] \<or> Exec ?r \<noteq> []" using h0 by simp
  have e2: "\<forall>(k, v) \<in> set ([] :: (string \<times> string) list). CHR ''='' \<notin> set k" by simp
  have e3: "\<forall>name \<in> fst ` set ([] :: (string \<times> string) list) \<union> {''kind'', ''apiVersion''}.
      \<forall>value fs.
      SetField okWorld name value (MapNode fs) = Inr (MapNode (AList.update name value fs))"
    by (simp add: okWorld_def fieldSetter_def)
  from getCLIFunctionConfig_configmap [OF e1 e2 e3]
  have g: "CHR ''='' \<notin> set k \<and> SetField okWorld k (Scalar v) (MapNode []) = Inl e \<longrightarrow>
      getCLIFunctionConfig okWorld ?r ((k @ ''='' @ v) # tail) = Inl e" for k v e tail
    by simp
  from g [of "[]" "''staging''" "External ''wrong Node Kind''" "[]"] h7
  have 4: "getCLIFunctionConfig okWorld ?r (([] @ ''='' @ ''staging'') # []) =
       Inl (External ''wrong Node Kind'')" by simp
  from h0 h4 h7 h8 1 2 3 4 show ?thesis unfolding d by simp
qed

text \<open>
  The claim as stated, \<open>data\<close> holding every pair, fails in two places. Where a key is
  repeated, the later pair replaces the earlier one. Where the library refuses a field
  name, as the field setter of the examples does for the empty key of \<open>=staging\<close>, the
  error is returned and there is no function config.
\<close>

theorem getCLIFunctionConfig_counterexample:
  "getCLIFunctionConfig okWorld (GetEvalFnRunner\<lparr>Image := ''set-namespace:v0.1''\<rparr>)
     [''namespace=staging'', ''namespace=prod''] =
   Inr (Some (MapNode
     [(''metadata'', MapNode [(''name'', Scalar ''function-input'')]),
      (''data'', MapNode [(''namespace'', Scalar ''prod'')]),
      (''kind'', Scalar ''ConfigMap''),
      (''apiVersion'', Scalar ''v1'')]))
   \<and> getCLIFunctionConfig okWorld (GetEvalFnRunner\<lparr>Image := ''set-namespace:v0.1''\<rparr>)
     [''=staging''] = Inl (External ''wrong Node Kind'')"
  by (simp add: getCLIFunctionConfig_def GetEvalFnRunner_def SplitN2_def okWorld_def
      fieldSetter_def)

subsection \<open>Saving the function to the Kptfile\<close>

text \<open>
  C9. The claim does not hold of the code. The loop of \<open>SaveFnToKptfile\<close> compares the
  name and the exec of every mutator with \<open>r.Exec\<close> also when \<open>r.Exec\<close> is empty, and the
  name and the image with \<open>r.Image\<close> also when that is empty. For an image function
  \<open>r.Exec\<close> is empty, and so is the exec of every image function already in the Kptfile:
  the Kptfile of the current directory, whose only mutator is the image \<open>set-namespace\<close>,
  is left unchanged when the image \<open>set-labels\<close> is saved, with the message "skip adding
  exec: already exists in Kptfile", although no mutator has the name, image or exec of the
  function being saved. With an empty list of mutators the same function is appended.
\<close>

theorem SaveFnToKptfile_skips_new_image:
  "SaveFnToKptfile okWorld (\<lambda>dir. None)
     (GetEvalFnRunner\<lparr>Image := ''gcr.io/kpt-fn/set-labels:v0.1'', SaveFn := True\<rparr>)
     [[] \<mapsto> \<lparr>Pipeline = Some \<lparr>Mutators =
        [\<lparr>Function_Name = [], Function_Image = ''gcr.io/kpt-fn/set-namespace:v0.1'',
          Function_Exec = [], Function_ConfigPath = ''fn-config.yaml'',
          Function_ConfigMap = None, Function_Selectors = []\<rparr>],
        Validators = []\<rparr>\<rparr>] =
   Inr ([[] \<mapsto> \<lparr>Pipeline = Some \<lparr>Mutators =
        [\<lparr>Function_Name = [], Function_Image = ''gcr.io/kpt-fn/set-namespace:v0.1'',
          Function_Exec = [], Function_ConfigPath = ''fn-config.yaml'',
          Function_ConfigMap = None, Function_Selectors = []\<rparr>],
        Validators = []\<rparr>\<rparr>],
        [Printf (''skip adding exec: already exists in Kptfile'' @ [CHR 0x0A])])
   \<and> SaveFnToKptfile okWorld (\<lambda>dir. None)
     (GetEvalFnRunner\<lparr>Image := ''gcr.io/kpt-fn/set-labels:v0.1'', SaveFn := True\<rparr>)
     [[] \<mapsto> \<lparr>Pipeline = Some \<lparr>Mutators = [], Validators = []\<rparr>\<rparr>] =
   Inr ([[] \<mapsto> \<lparr>Pipeline = Some \<lparr>Mutators =
        [\<lparr>Function_Name = ''gcr.io/kpt-fn/set-labels:v0.1'',
          Function_Image = ''gcr.io/kpt-fn/set-labels:v0.1'',
          Function_Exec = [], Function_ConfigPath = [],
          Function_ConfigMap = None, Function_Selectors = []\<rparr>],
        Validators = []\<rparr>\<rparr>],
        [Printf (''function is added to Kptfile'' @ [CHR 0x0A])])"
  by (simp add: SaveFnToKptfile_def NewFunction_def GetEvalFnRunner_def okWorld_def
      Selector_IsEmpty_def)

end
